theory Spec2Isabelle
  imports Main "HOL-Library.Sublist" "HOL-Library.AList"
begin

section \<open>Python text: \<open>str\<close>, \<open>repr\<close> and the format mini-language\<close>

text \<open>
  A Python string is a \<open>string\<close>; one \<open>char\<close> of the model is one character of the
  Python string, so the model covers the characters with a code below 256 and
  \<open>length\<close> is Python's \<open>len\<close>.
\<close>

definition digit :: "nat \<Rightarrow> char" where
  "digit n = ''0123456789abcdef'' ! (n mod 16)"

fun show_nat :: "nat \<Rightarrow> string" where
  "show_nat n = (if n < 10 then [digit n] else show_nat (n div 10) @ [digit (n mod 10)])"

declare show_nat.simps [simp del]

definition show_int :: "int \<Rightarrow> string" where
  "show_int i = (if i < 0 then CHR ''-'' # show_nat (nat (- i)) else show_nat (nat i))"

text \<open>\<open>zfill k s\<close> is Python's \<open>s.zfill(k)\<close> on a string of digits.\<close>

definition zfill :: "nat \<Rightarrow> string \<Rightarrow> string" where
  "zfill k s = replicate (k - length s) CHR ''0'' @ s"

text \<open>
  \<open>repr\<close> of a \<open>str\<close>: the quote is the double quote when the string has a single quote
  and no double quote, the single quote otherwise; the backslash, the chosen quote,
  tab, newline and carriage return are escaped by a backslash, and the other
  characters that are not printable (the control characters, 0xa0 and 0xad) as
  \<open>\xNN\<close>.
\<close>

definition py_escape :: "char \<Rightarrow> char \<Rightarrow> string" where
  "py_escape q c =
     (if c = q \<or> c = CHR 0x5C then [CHR 0x5C, c]
      else if c = CHR 0x09 then [CHR 0x5C, CHR ''t'']
      else if c = CHR 0x0A then [CHR 0x5C, CHR ''n'']
      else if c = CHR 0x0D then [CHR 0x5C, CHR ''r'']
      else if of_char c < (32::nat) \<or> (127 \<le> (of_char c :: nat) \<and> of_char c \<le> (160::nat))
              \<or> of_char c = (173::nat)
        then [CHR 0x5C, CHR ''x'', digit (of_char c div 16), digit (of_char c mod 16)]
      else [c])"

definition py_repr_str :: "string \<Rightarrow> string" where
  "py_repr_str s =
     (let q = (if CHR 0x27 \<in> set s \<and> CHR 0x22 \<notin> set s then CHR 0x22 else CHR 0x27)
      in q # concat (map (py_escape q) s) @ [q])"

text \<open>
  A naive \<open>datetime.datetime\<close>. \<open>str\<close> is \<open>isoformat(sep=' ')\<close>, which leaves the
  microseconds out when they are zero; \<open>repr\<close> leaves a zero microsecond out, and then
  a zero second.
\<close>

datatype datetime =
  DateTime (year: nat) (month: nat) (day: nat) (hour: nat) (minute: nat) (second: nat)
    (microsecond: nat)

definition str_datetime :: "datetime \<Rightarrow> string" where
  "str_datetime d =
     zfill 4 (show_nat (year d)) @ ''-'' @ zfill 2 (show_nat (month d)) @ ''-''
       @ zfill 2 (show_nat (day d)) @ '' '' @ zfill 2 (show_nat (hour d)) @ '':''
       @ zfill 2 (show_nat (minute d)) @ '':'' @ zfill 2 (show_nat (second d))
       @ (if microsecond d = 0 then [] else ''.'' @ zfill 6 (show_nat (microsecond d)))"

definition repr_datetime :: "datetime \<Rightarrow> string" where
  "repr_datetime d =
     ''datetime.datetime('' @ show_nat (year d) @ '', '' @ show_nat (month d) @ '', ''
       @ show_nat (day d) @ '', '' @ show_nat (hour d) @ '', '' @ show_nat (minute d)
       @ (if microsecond d \<noteq> 0
            then '', '' @ show_nat (second d) @ '', '' @ show_nat (microsecond d)
          else if second d \<noteq> 0 then '', '' @ show_nat (second d)
          else [])
       @ '')''"

subsection \<open>Exceptions\<close>

text \<open>
  An exception is its class and its message; \<open>repr\<close> of an exception with one
  argument is the class name and the \<open>repr\<close> of the message in parentheses. The
  interpreter raises MemoryError with no argument, which is the empty message here.
\<close>

datatype exn_class =
  MissingGreenlet | DetachedInstanceError | IntegrityError | ProgrammingError
  | StatementError | ArgumentError | FlushError | NoSuchModuleError | InvalidRequestError
  | TypeError | ValueError | AttributeError | KeyError | MemoryError

datatype exn = Exn (exn_cls: exn_class) (exn_msg: string)

fun exn_class_name :: "exn_class \<Rightarrow> string" where
  "exn_class_name MissingGreenlet = ''MissingGreenlet''"
| "exn_class_name DetachedInstanceError = ''DetachedInstanceError''"
| "exn_class_name IntegrityError = ''IntegrityError''"
| "exn_class_name ProgrammingError = ''ProgrammingError''"
| "exn_class_name StatementError = ''StatementError''"
| "exn_class_name ArgumentError = ''ArgumentError''"
| "exn_class_name FlushError = ''FlushError''"
| "exn_class_name NoSuchModuleError = ''NoSuchModuleError''"
| "exn_class_name InvalidRequestError = ''InvalidRequestError''"
| "exn_class_name TypeError = ''TypeError''"
| "exn_class_name ValueError = ''ValueError''"
| "exn_class_name AttributeError = ''AttributeError''"
| "exn_class_name KeyError = ''KeyError''"
| "exn_class_name MemoryError = ''MemoryError''"

definition repr_exn :: "exn \<Rightarrow> string" where
  "repr_exn e = exn_class_name (exn_cls e) @ ''('' @ py_repr_str (exn_msg e) @ '')''"

subsection \<open>The divider\<close>

text \<open>
  \<open>format(s, "=^w")\<close> on a string, as CPython does it. The width is written into
  the format specification in decimal and read back from it: a negative width gives the
  specification \<open>=^-w\<close>, whose sign a string refuses with ValueError, and a width above
  \<open>PY_SSIZE_T_MAX\<close> does not fit the integer that the parser reads it into, which is a
  ValueError as well. Otherwise the total is the larger of the width and the length of
  \<open>s\<close>, the left padding is half of what is missing, rounded down, and the right
  padding is the rest. The string is never cut.

  The result is a new string, which the interpreter has to allocate; when it cannot,
  it raises MemoryError. How long a string it can allocate is a matter of the machine
  and not of the program, so it is a parameter here: \<open>Some n\<close> when the longest string
  that can be allocated has \<open>n\<close> characters, \<open>None\<close> when memory is no constraint.
\<close>

definition PY_SSIZE_T_MAX :: int where
  "PY_SSIZE_T_MAX = 2 ^ 63 - 1"

definition allocates :: "nat option \<Rightarrow> nat \<Rightarrow> bool" where
  "allocates memory n = (case memory of None \<Rightarrow> True | Some longest \<Rightarrow> n \<le> longest)"

definition format_center :: "nat option \<Rightarrow> char \<Rightarrow> string \<Rightarrow> int \<Rightarrow> exn + string" where
  "format_center memory fill s width =
     (if width < 0 then Inl (Exn ValueError ''Sign not allowed in string format specifier'')
      else if PY_SSIZE_T_MAX < width
        then Inl (Exn ValueError ''Too many decimal digits in format string'')
      else
        let n_total = max (nat width) (length s);
            n_lpadding = (n_total - length s) div 2;
            n_rpadding = n_total - length s - n_lpadding
        in if \<not> allocates memory n_total then Inl (Exn MemoryError [])
           else Inr (replicate n_lpadding fill @ s @ replicate n_rpadding fill))"

definition DIVIDER_WIDTH :: int where
  "DIVIDER_WIDTH = 80"

text \<open>
  \<^verbatim>\<open>
  def format_divider(label: str = "", width: int = DIVIDER_WIDTH) -> str:
      if label:
          label = f"| {label} |"
      return f"{label:=^{width}}"
  \<close>
  The label between its bars is a new string too, made before the width is looked at.
\<close>

definition format_divider :: "nat option \<Rightarrow> string \<Rightarrow> int \<Rightarrow> exn + string" where
  "format_divider memory label width =
     (if label \<noteq> []
        then (if \<not> allocates memory (length (''| '' @ label @ '' |''))
                then Inl (Exn MemoryError [])
              else format_center memory CHR ''='' (''| '' @ label @ '' |'') width)
      else format_center memory CHR ''='' label width)"


section \<open>The ORM models\<close>

text \<open>
  The four mapped classes of \<^verbatim>\<open>models.py\<close>. The table columns are in the order of
  their creation (\<open>Base.id\<close>, then the columns of \<open>TravelerMixin\<close>, then those of the
  class itself); the attributes of the mapper are the relationships, then the columns.
  No theorem below depends on that order.
\<close>

datatype orm_model = LazyTraveler | EagerTraveler | TravelerWithDestination | Country

fun class_name :: "orm_model \<Rightarrow> string" where
  "class_name LazyTraveler = ''LazyTraveler''"
| "class_name EagerTraveler = ''EagerTraveler''"
| "class_name TravelerWithDestination = ''TravelerWithDestination''"
| "class_name Country = ''Country''"

fun columns :: "orm_model \<Rightarrow> string list" where
  "columns LazyTraveler = [''id'', ''created_at'', ''name'', ''age'']"
| "columns EagerTraveler = [''id'', ''created_at'', ''name'', ''age'']"
| "columns TravelerWithDestination = [''id'', ''created_at'', ''name'', ''age'', ''destination_id'']"
| "columns Country = [''id'', ''name'']"

fun relationships :: "orm_model \<Rightarrow> string list" where
  "relationships TravelerWithDestination = [''destination'']"
| "relationships _ = []"

definition mapper_attrs :: "orm_model \<Rightarrow> string list" where
  "mapper_attrs m = relationships m @ columns m"

text \<open>The \<open>eager_defaults\<close> entry of \<open>__mapper_args__\<close>; \<open>Country\<close> leaves the default.\<close>

fun eager_defaults :: "orm_model \<Rightarrow> bool" where
  "eager_defaults LazyTraveler = False"
| "eager_defaults EagerTraveler = True"
| "eager_defaults TravelerWithDestination = True"
| "eager_defaults Country = False"

text \<open>
  A Python value, and an instance of a mapped class: its class, the session it is
  attached to, whether it has a row (is persistent), the attributes that are expired,
  and its \<open>__dict__\<close> of loaded attributes. An unloaded attribute is one that has no
  entry in the \<open>__dict__\<close>.
\<close>

datatype val = VNone | VInt int | VStr string | VDateTime datetime | VObj orm_instance
and orm_instance =
  Instance (cls: orm_model) (session_of: "nat option") (persistent: bool)
    (expired: "string list") (attrs_dict: "(string \<times> val) list")

definition lookup :: "(string \<times> val) list \<Rightarrow> string \<Rightarrow> val" where
  "lookup d k = (case map_of d k of None \<Rightarrow> VNone | Some v \<Rightarrow> v)"

definition str_join :: "string \<Rightarrow> string list \<Rightarrow> string" where
  "str_join sep xs = (case xs of [] \<Rightarrow> [] | x # rest \<Rightarrow> x @ concat (map (\<lambda>y. sep @ y) rest))"

text \<open>
  \<^verbatim>\<open>
  def __repr__(self) -> str:
      cls_name = type(self).__name__
      instance_state = sqlalchemy.inspect(self)
      formatted_fields = ", ".join(
          f"{attr.key}={attr.value!r}"
          if attr.key not in instance_state.unloaded
          else f"{attr.key}=<NOT_LOADED>"
          for attr in instance_state.attrs
      )
      return f"{cls_name}({formatted_fields})"
  \<close>
  \<open>instance_state.attrs\<close> runs over the attributes of the mapper and
  \<open>instance_state.unloaded\<close> is the set of those with no entry in the \<open>__dict__\<close>;
  \<open>attr.value\<close> is evaluated for the loaded ones only. \<open>RepresentableMixin_repr\<close>
  takes the class and the \<open>__dict__\<close> with the \<open>repr\<close> of each value in place of the value.
\<close>

definition unloaded :: "orm_model \<Rightarrow> string list \<Rightarrow> string list" where
  "unloaded m loaded_keys = filter (\<lambda>key. key \<notin> set loaded_keys) (mapper_attrs m)"

definition RepresentableMixin_repr :: "orm_model \<Rightarrow> (string \<times> string) list \<Rightarrow> string" where
  "RepresentableMixin_repr m reprs =
     (let cls_name = class_name m;
          formatted_fields = str_join '', ''
            (map (\<lambda>key. if key \<notin> set (unloaded m (map fst reprs))
                         then key @ ''='' @ (case map_of reprs key of Some r \<Rightarrow> r | None \<Rightarrow> [])
                         else key @ ''=<NOT_LOADED>'')
                 (mapper_attrs m))
      in cls_name @ ''('' @ formatted_fields @ '')'')"

primrec py_repr :: "val \<Rightarrow> string" and repr_instance :: "orm_instance \<Rightarrow> string" where
  "py_repr VNone = ''None''"
| "py_repr (VInt i) = show_int i"
| "py_repr (VStr s) = py_repr_str s"
| "py_repr (VDateTime d) = repr_datetime d"
| "py_repr (VObj i) = repr_instance i"
| "repr_instance (Instance m s p e d) = RepresentableMixin_repr m (map (map_prod id py_repr) d)"

text \<open>\<open>str\<close>; the mapped classes define no \<open>__str__\<close>, so theirs is \<open>__repr__\<close>.\<close>

fun py_str :: "val \<Rightarrow> string" where
  "py_str (VStr s) = s"
| "py_str (VDateTime d) = str_datetime d"
| "py_str v = py_repr v"

section \<open>The database, the console and the library\<close>

text \<open>
  The program runs on SQLAlchemy's asyncio extension and a database server, which are
  not part of the repository. This section is the model of both that the functions of
  the repository are read against: the documented behaviour of the library, on a server
  that is reachable and enforces its column types and constraints. Logging of the engine
  (\<open>echo\<close>) goes to the log, not to the console, and is not modelled.
\<close>

subsection \<open>The world\<close>

type_synonym row = "(string \<times> val) list"

record database =
  schema :: bool
  table :: "orm_model \<Rightarrow> row list"
  next_id :: "orm_model \<Rightarrow> int"
  server_now :: datetime

text \<open>
  The calls into the library, in the order in which the program makes them;
  \<open>Inspect\<close> is \<open>sqlalchemy.inspect\<close> on an instance of that class.
\<close>

datatype event =
  Construct orm_model
  | SessionOpen nat | SessionClose nat
  | TxBegin nat | SessionAdd nat orm_model | TxCommit nat | TxRollback nat
  | SessionExecute nat orm_model
  | AttrRead orm_model string | Inspect orm_model
  | ConnOpen | ConnExecute | ConnClose | DropAll | CreateAll | EngineDispose

text \<open>
  The world of a run: the environment variables, the installation, the console, the
  calls made so far, the database, and the sessions. Of the installation the model
  keeps what \<open>create_async_engine\<close> makes of a connection string once it has parsed:
  the exception it raises because the dialect or the driver that the string names
  cannot be loaded or is not asynchronous, or because the library refuses another part
  of the string, and \<open>None\<close> when it creates the engine.
\<close>

record world =
  environ :: "(string \<times> string) list"
  installation :: "string \<Rightarrow> exn option"
  console :: string
  trace :: "event list"
  db :: database
  next_sid :: nat
  open_sessions :: "nat list"

text \<open>
  A coroutine is a function of the world that returns a value or raises, and a new
  world; awaiting it runs it.
\<close>

type_synonym 'a io = "world \<Rightarrow> (exn + 'a) \<times> world"

definition ret_io :: "'a \<Rightarrow> 'a io" where
  "ret_io x w = (Inr x, w)"

definition raise_io :: "exn \<Rightarrow> 'a io" where
  "raise_io e w = (Inl e, w)"

definition bind_io :: "'a io \<Rightarrow> ('a \<Rightarrow> 'b io) \<Rightarrow> 'b io" where
  "bind_io m f w = (case m w of (Inl e, w') \<Rightarrow> (Inl e, w') | (Inr x, w') \<Rightarrow> f x w')"

definition lift_io :: "exn + 'a \<Rightarrow> 'a io" where
  "lift_io r w = (r, w)"

definition log_event :: "event \<Rightarrow> unit io" where
  "log_event ev w = (Inr (), w\<lparr>trace := trace w @ [ev]\<rparr>)"

definition newline :: string where
  "newline = [CHR 0x0A]"

text \<open>\<open>print(text, end=ending)\<close>.\<close>

definition py_print :: "string \<Rightarrow> string \<Rightarrow> unit io" where
  "py_print text ending w = (Inr (), w\<lparr>console := console w @ text @ ending\<rparr>)"

text \<open>\<open>try: body except c as exception: handler\<close>.\<close>

definition try_except :: "exn_class \<Rightarrow> 'a io \<Rightarrow> (exn \<Rightarrow> 'a io) \<Rightarrow> 'a io" where
  "try_except c body handler w =
     (case body w of
        (Inl e, w') \<Rightarrow> if exn_cls e = c then handler e w' else (Inl e, w')
      | (Inr x, w') \<Rightarrow> (Inr x, w'))"

subsection \<open>Engine and sessions\<close>

record engine =
  engine_url :: string
  engine_echo :: bool
  engine_future :: bool

text \<open>
  \<open>create_async_engine(url, echo=echo, future=future)\<close>. The library parses the
  connection string with a pattern that starts with \<open>(?P<name>[\w\+]+)://\<close> and whose
  other groups are all optional, and raises ArgumentError when the string does not
  match. \<open>url_drivername\<close> is that first group: the longest run of word characters and
  plus signs at the start, which has to be followed by \<open>://\<close>. What the library does
  with a string that has parsed is the installation's. No connection is made yet.
\<close>

definition is_word_char :: "char \<Rightarrow> bool" where
  "is_word_char c =
     (let n = (of_char c :: nat)
      in (48 \<le> n \<and> n \<le> 57) \<or> (65 \<le> n \<and> n \<le> 90) \<or> n = 95 \<or> (97 \<le> n \<and> n \<le> 122)
         \<or> n = 170 \<or> n = 178 \<or> n = 179 \<or> n = 181 \<or> n = 185 \<or> n = 186
         \<or> (188 \<le> n \<and> n \<le> 190) \<or> (192 \<le> n \<and> n \<le> 214) \<or> (216 \<le> n \<and> n \<le> 246)
         \<or> 248 \<le> n)"

definition url_drivername :: "string \<Rightarrow> string option" where
  "url_drivername url =
     (let name = takeWhile (\<lambda>c. is_word_char c \<or> c = CHR ''+'') url;
          rest = dropWhile (\<lambda>c. is_word_char c \<or> c = CHR ''+'') url
      in if name \<noteq> [] \<and> take 3 rest = ''://'' then Some name else None)"

definition create_async_engine :: "string \<Rightarrow> bool \<Rightarrow> bool \<Rightarrow> engine io" where
  "create_async_engine url echo future w =
     (case url_drivername url of
        None \<Rightarrow>
          (Inl (Exn ArgumentError
                  (''Could not parse rfc1738 URL from string '' @ [CHR 0x27] @ url @ [CHR 0x27])),
           w)
      | Some drivername \<Rightarrow>
          (case installation w url of
             Some e \<Rightarrow> (Inl e, w)
           | None \<Rightarrow>
               (Inr \<lparr>engine_url = url, engine_echo = echo, engine_future = future\<rparr>, w)))"

record sessionmaker =
  bind_engine :: engine
  expire_on_commit :: bool

record session =
  sid :: nat
  session_expire_on_commit :: bool

text \<open>\<open>session_maker()\<close>: a new session; no statement is sent yet.\<close>

definition session_maker_call :: "sessionmaker \<Rightarrow> session io" where
  "session_maker_call session_maker w =
     (let n = next_sid w
      in (Inr \<lparr>sid = n, session_expire_on_commit = expire_on_commit session_maker\<rparr>,
          w\<lparr>next_sid := Suc n, open_sessions := n # open_sessions w,
            trace := trace w @ [SessionOpen n]\<rparr>))"

definition session_close :: "session \<Rightarrow> world \<Rightarrow> world" where
  "session_close session w =
     w\<lparr>open_sessions := removeAll (sid session) (open_sessions w),
       trace := trace w @ [SessionClose (sid session)]\<rparr>"

text \<open>
  \<open>async with session_maker() as session: body\<close>: the session is closed when the
  block is left, by its end or by an exception.
\<close>

definition with_session :: "sessionmaker \<Rightarrow> (session \<Rightarrow> 'a io) \<Rightarrow> 'a io" where
  "with_session session_maker body =
     bind_io (session_maker_call session_maker)
       (\<lambda>session w. case body session w of (r, w') \<Rightarrow> (r, session_close session w'))"

subsection \<open>Constructing an instance\<close>

text \<open>
  The constructor of a declarative class takes keyword arguments: a key that is not a
  mapped attribute of the class raises TypeError, the others are set in order. Setting
  a relationship to something that is neither an instance nor None raises
  AttributeError. The new instance is transient.
\<close>

fun is_obj_or_none :: "val \<Rightarrow> bool" where
  "is_obj_or_none VNone = True"
| "is_obj_or_none (VObj i) = True"
| "is_obj_or_none _ = False"

fun set_kwargs :: "orm_model \<Rightarrow> (string \<times> val) list \<Rightarrow> (string \<times> val) list
    \<Rightarrow> exn + (string \<times> val) list" where
  "set_kwargs m [] d = Inr d"
| "set_kwargs m ((k, v) # kwargs) d =
     (if k \<notin> set (mapper_attrs m)
        then Inl (Exn TypeError
                   (py_repr_str k @ '' is an invalid keyword argument for '' @ class_name m))
      else if k \<in> set (relationships m) \<and> \<not> is_obj_or_none v
        then Inl (Exn AttributeError ''object has no attribute _sa_instance_state'')
      else set_kwargs m kwargs (AList.update k v d))"

definition construct :: "orm_model \<Rightarrow> (string \<times> val) list \<Rightarrow> orm_instance io" where
  "construct m kwargs =
     bind_io (lift_io (set_kwargs m kwargs []))
       (\<lambda>d. bind_io (log_event (Construct m)) (\<lambda>_. ret_io (Instance m None False [] d)))"

subsection \<open>INSERT and the flush\<close>

datatype column_type = SqlInteger | SqlString nat | SqlDateTime

definition column_type :: "string \<Rightarrow> column_type" where
  "column_type key =
     (if key = ''name'' then SqlString 128
      else if key = ''created_at'' then SqlDateTime
      else SqlInteger)"

fun fits :: "column_type \<Rightarrow> val \<Rightarrow> bool" where
  "fits _ VNone = True"
| "fits SqlInteger (VInt i) = (- 2147483648 \<le> i \<and> i \<le> 2147483647)"
| "fits (SqlString n) (VStr s) = (length s \<le> n)"
| "fits SqlDateTime (VDateTime d) = True"
| "fits _ _ = False"

definition row_ids :: "database \<Rightarrow> orm_model \<Rightarrow> val list" where
  "row_ids dbs m = map (\<lambda>r. lookup r ''id'') (table dbs m)"

text \<open>
  One INSERT. A column whose value is None is left out of the statement, so the key is
  assigned by the server, \<open>created_at\<close> takes its server default \<open>now()\<close>, and the
  others are NULL. The server refuses values that do not fit their column, a key that
  is taken, and a \<open>destination_id\<close> that is no key of a country. An explicit key leaves
  the sequence of the table as it is.
\<close>

definition insert_row :: "orm_model \<Rightarrow> (string \<times> val) list \<Rightarrow> database
    \<Rightarrow> exn + (row \<times> database)" where
  "insert_row m d dbs =
     (if \<not> schema dbs then Inl (Exn ProgrammingError ''relation does not exist'')
      else if \<not> list_all (\<lambda>c. fits (column_type c) (lookup d c)) (columns m)
        then Inl (Exn StatementError ''value does not fit its column'')
      else
        let auto = (lookup d ''id'' = VNone);
            pk = (if auto then VInt (next_id dbs m) else lookup d ''id'');
            dbs' = (if auto then dbs\<lparr>next_id := (next_id dbs)(m := next_id dbs m + 1)\<rparr>
                    else dbs);
            r = map (\<lambda>c. (c, if c = ''id'' then pk
                              else if c = ''created_at'' \<and> lookup d c = VNone
                                then VDateTime (server_now dbs)
                              else lookup d c))
                  (columns m)
        in if \<not> fits SqlInteger pk
             then Inl (Exn StatementError ''integer out of range'')
           else if pk \<in> set (row_ids dbs m)
             then Inl (Exn IntegrityError ''duplicate key value'')
           else if ''destination_id'' \<in> set (columns m) \<and> lookup d ''destination_id'' \<noteq> VNone
                   \<and> lookup d ''destination_id'' \<notin> set (row_ids dbs Country)
             then Inl (Exn IntegrityError ''foreign key violation'')
           else Inr (r, dbs'\<lparr>table := (table dbs')(m := table dbs' m @ [r])\<rparr>))"

text \<open>
  The instance after its INSERT: it is persistent in the session and has its key. Where
  the server default of \<open>created_at\<close> was used, a mapper with \<open>eager_defaults\<close> has
  fetched the value with the INSERT; without it the attribute is expired, to be loaded
  on its next access.
\<close>

definition after_insert :: "nat \<Rightarrow> orm_model \<Rightarrow> (string \<times> val) list \<Rightarrow> row \<Rightarrow> orm_instance" where
  "after_insert s m d r =
     (let d1 = AList.update ''id'' (lookup r ''id'') d
      in if ''created_at'' \<in> set (columns m) \<and> lookup d ''created_at'' = VNone
           then (if eager_defaults m
                   then Instance m (Some s) True []
                          (AList.update ''created_at'' (lookup r ''created_at'') d1)
                 else Instance m (Some s) True [''created_at''] (AList.delete ''created_at'' d1))
         else Instance m (Some s) True [] d1)"

definition flush_one :: "nat \<Rightarrow> orm_instance \<Rightarrow> database \<Rightarrow> exn + (orm_instance \<times> database)" where
  "flush_one s inst dbs =
     (if persistent inst
        then Inr (Instance (cls inst) (Some s) True (expired inst) (attrs_dict inst), dbs)
      else case insert_row (cls inst) (attrs_dict inst) dbs of
             Inl e \<Rightarrow> Inl e
           | Inr (r, dbs') \<Rightarrow> Inr (after_insert s (cls inst) (attrs_dict inst) r, dbs'))"

definition set_attr :: "orm_instance \<Rightarrow> string \<Rightarrow> val \<Rightarrow> orm_instance" where
  "set_attr inst key v =
     Instance (cls inst) (session_of inst) (persistent inst) (expired inst)
       (AList.update key v (attrs_dict inst))"

text \<open>
  The flush of a pending instance. An instance set as \<open>destination\<close> is saved with it
  (the save-update cascade) and before it, and its key becomes the \<open>destination_id\<close>;
  a \<open>destination\<close> set to None clears the \<open>destination_id\<close>.
\<close>

definition flush_instance :: "nat \<Rightarrow> orm_instance \<Rightarrow> database
    \<Rightarrow> exn + (orm_instance \<times> database)" where
  "flush_instance s inst dbs =
     (if ''destination'' \<in> set (relationships (cls inst)) \<and> \<not> persistent inst
        then (case map_of (attrs_dict inst) ''destination'' of
                None \<Rightarrow> flush_one s inst dbs
              | Some VNone \<Rightarrow> flush_one s (set_attr inst ''destination_id'' VNone) dbs
              | Some (VObj c) \<Rightarrow>
                  if cls c \<noteq> Country
                    then Inl (Exn FlushError ''Expected an object of type Country'')
                  else (case flush_one s c dbs of
                          Inl e \<Rightarrow> Inl e
                        | Inr (c', dbs') \<Rightarrow>
                            flush_one s
                              (set_attr (set_attr inst ''destination'' (VObj c'))
                                 ''destination_id'' (lookup (attrs_dict c') ''id''))
                              dbs')
              | Some _ \<Rightarrow> Inl (Exn FlushError ''Expected an object of type Country''))
      else flush_one s inst dbs)"

subsection \<open>Transactions\<close>

definition session_add :: "session \<Rightarrow> orm_instance \<Rightarrow> orm_instance io" where
  "session_add session inst =
     bind_io (log_event (SessionAdd (sid session) (cls inst))) (\<lambda>_. ret_io inst)"

definition expire_all :: "orm_instance \<Rightarrow> orm_instance" where
  "expire_all inst =
     Instance (cls inst) (session_of inst) (persistent inst) (mapper_attrs (cls inst)) []"

text \<open>
  The commit flushes the instance that was added and commits; when the session was made
  with \<open>expire_on_commit\<close>, every attribute is expired afterwards. A failed flush rolls
  the transaction back and raises.
\<close>

definition session_commit :: "session \<Rightarrow> orm_instance \<Rightarrow> orm_instance io" where
  "session_commit session inst w =
     (case flush_instance (sid session) inst (db w) of
        Inl e \<Rightarrow> (Inl e, w\<lparr>trace := trace w @ [TxRollback (sid session)]\<rparr>)
      | Inr (inst', dbs') \<Rightarrow>
          (Inr (if session_expire_on_commit session then expire_all inst' else inst'),
           w\<lparr>db := dbs', trace := trace w @ [TxCommit (sid session)]\<rparr>))"

text \<open>
  \<open>async with session.begin(): body\<close>, where the body returns the instance it added:
  the block commits at its end and rolls back on an exception.
\<close>

definition transaction :: "session \<Rightarrow> orm_instance io \<Rightarrow> orm_instance io" where
  "transaction session body =
     bind_io (log_event (TxBegin (sid session)))
       (\<lambda>_ w. case body w of
                (Inl e, w') \<Rightarrow> (Inl e, w'\<lparr>trace := trace w' @ [TxRollback (sid session)]\<rparr>)
              | (Inr inst, w') \<Rightarrow> session_commit session inst w')"

subsection \<open>SELECT\<close>

text \<open>
  \<open>sqlalchemy.select(m).where(m.id == v)\<close>, with the relationships for which
  \<open>.options(orm.joinedload(...))\<close> was given.
\<close>

record select =
  sel_model :: orm_model
  sel_where_id :: val
  sel_options :: "string list"

definition select_where_id :: "orm_model \<Rightarrow> val \<Rightarrow> select" where
  "select_where_id m v = \<lparr>sel_model = m, sel_where_id = v, sel_options = []\<rparr>"

definition options_joinedload :: "select \<Rightarrow> string \<Rightarrow> select" where
  "options_joinedload statement rel = statement\<lparr>sel_options := sel_options statement @ [rel]\<rparr>"

definition foreign_key :: "string \<Rightarrow> string" where
  "foreign_key rel = rel @ ''_id''"

text \<open>
  An instance loaded from a row has every column loaded. A relationship is loaded only
  when it was joined: with the country of that key, or None.
\<close>

definition joined :: "nat \<Rightarrow> database \<Rightarrow> row \<Rightarrow> string \<Rightarrow> val" where
  "joined s dbs r rel =
     (if lookup r (foreign_key rel) = VNone then VNone
      else case find (\<lambda>c. lookup c ''id'' = lookup r (foreign_key rel)) (table dbs Country) of
             None \<Rightarrow> VNone
           | Some c \<Rightarrow> VObj (Instance Country (Some s) True [] c))"

definition load_instance :: "nat \<Rightarrow> database \<Rightarrow> orm_model \<Rightarrow> string list \<Rightarrow> row \<Rightarrow> orm_instance" where
  "load_instance s dbs m options r =
     Instance m (Some s) True [] (r @ map (\<lambda>rel. (rel, joined s dbs r rel)) options)"

text \<open>
  \<open>await session.execute(statement)\<close> in a session that holds no instance yet, as every
  session of the program that executes a statement does. The result has one row for
  each row of the table with that key, and the row has one column, the instance.
\<close>

definition session_execute :: "session \<Rightarrow> select \<Rightarrow> val list list io" where
  "session_execute session statement =
     bind_io (log_event (SessionExecute (sid session) (sel_model statement)))
       (\<lambda>_ w.
          if \<not> schema (db w) then (Inl (Exn ProgrammingError ''relation does not exist''), w)
          else if \<not> list_all (\<lambda>rel. rel \<in> set (relationships (sel_model statement)))
                     (sel_options statement)
            then (Inl (Exn ArgumentError ''attribute does not apply to the entity''), w)
          else if \<not> fits SqlInteger (sel_where_id statement)
            then (Inl (Exn StatementError ''value does not fit its column''), w)
          else (Inr (map (\<lambda>r. [VObj (load_instance (sid session) (db w) (sel_model statement)
                                       (sel_options statement) r)])
                       (filter (\<lambda>r. lookup r ''id'' = sel_where_id statement)
                          (table (db w) (sel_model statement)))),
                w))"

text \<open>\<open>result.scalar()\<close>: the first column of the first row, or None.\<close>

definition scalar :: "val list list \<Rightarrow> val" where
  "scalar result =
     (case result of [] \<Rightarrow> VNone | r # _ \<Rightarrow> (case r of [] \<Rightarrow> VNone | v # _ \<Rightarrow> v))"

subsection \<open>Reading an attribute\<close>

text \<open>
  A loaded attribute is read from the \<open>__dict__\<close>. An unloaded one of a persistent
  instance has to be loaded when it is expired, or is a relationship whose foreign key
  is not None. Loading sends a statement from synchronous code: under the asyncio
  extension that raises MissingGreenlet while the session of the instance is open, and
  DetachedInstanceError once it is closed. Any other unloaded attribute reads as None.
\<close>

definition missing_greenlet :: exn where
  "missing_greenlet = Exn MissingGreenlet
     (''greenlet_spawn has not been called; can'' @ [CHR 0x27] @ ''t call await_only() here. ''
        @ ''Was IO attempted in an unexpected place?'')"

definition detached_instance :: exn where
  "detached_instance = Exn DetachedInstanceError ''Instance is not bound to a Session''"

definition read_attr :: "nat list \<Rightarrow> orm_instance \<Rightarrow> string \<Rightarrow> exn + val" where
  "read_attr opened inst key =
     (if key \<notin> set (mapper_attrs (cls inst))
        then Inl (Exn AttributeError (''object has no attribute '' @ py_repr_str key))
      else case map_of (attrs_dict inst) key of
             Some v \<Rightarrow> Inr v
           | None \<Rightarrow>
               if persistent inst
                  \<and> (key \<in> set (expired inst)
                     \<or> (key \<in> set (relationships (cls inst))
                        \<and> lookup (attrs_dict inst) (foreign_key key) \<noteq> VNone))
                 then (case session_of inst of
                         None \<Rightarrow> Inl detached_instance
                       | Some s \<Rightarrow>
                           if s \<in> set opened then Inl missing_greenlet
                           else Inl detached_instance)
               else Inr VNone)"

definition getattr_orm :: "val \<Rightarrow> string \<Rightarrow> val io" where
  "getattr_orm obj key =
     (case obj of
        VObj inst \<Rightarrow>
          bind_io (log_event (AttrRead (cls inst) key))
            (\<lambda>_ w. (read_attr (open_sessions w) inst key, w))
      | _ \<Rightarrow> raise_io (Exn AttributeError (''object has no attribute '' @ py_repr_str key)))"

text \<open>
  \<open>f"{v!r}"\<close> as a step of a coroutine. The \<open>__repr__\<close> of a mapped class inspects the
  instance and then reads, through \<open>attr.value\<close>, each attribute that is loaded, whose
  own \<open>repr\<close> follows; an attribute that is not loaded is not read. The string is
  \<open>py_repr\<close>.
\<close>

primrec repr_events :: "val \<Rightarrow> event list"
  and repr_events_instance :: "orm_instance \<Rightarrow> event list" where
  "repr_events VNone = []"
| "repr_events (VInt i) = []"
| "repr_events (VStr s) = []"
| "repr_events (VDateTime d) = []"
| "repr_events (VObj i) = repr_events_instance i"
| "repr_events_instance (Instance m s p e d) =
     Inspect m
       # concat (map (\<lambda>key. case map_of (map (map_prod id repr_events) d) key of
                                None \<Rightarrow> []
                              | Some events \<Rightarrow> AttrRead m key # events)
                   (mapper_attrs m))"

definition format_repr :: "val \<Rightarrow> string io" where
  "format_repr v w = (Inr (py_repr v), w\<lparr>trace := trace w @ repr_events v\<rparr>)"

subsection \<open>Connections\<close>

text \<open>
  \<open>sqlalchemy.text("SELECT :name")\<close>: the statement that selects its one bind parameter.
  The server answers with one row of one column, the value of the parameter.
\<close>

datatype text_clause = SelectBindParam string

definition conn_execute :: "text_clause \<Rightarrow> (string \<times> val) list \<Rightarrow> val list list io" where
  "conn_execute statement parameters =
     bind_io (log_event ConnExecute)
       (\<lambda>_. case statement of
              SelectBindParam name \<Rightarrow>
                (case map_of parameters name of
                   None \<Rightarrow> raise_io (Exn StatementError ''A value is required for bind parameter'')
                 | Some (VObj i) \<Rightarrow> raise_io (Exn StatementError ''value cannot be bound'')
                 | Some v \<Rightarrow> ret_io [[v]]))"

text \<open>\<open>async with async_engine.connect() as conn: body\<close>.\<close>

definition with_connection :: "engine \<Rightarrow> 'a io \<Rightarrow> 'a io" where
  "with_connection async_engine body =
     bind_io (log_event ConnOpen)
       (\<lambda>_ w. case body w of (r, w') \<Rightarrow> (r, w'\<lparr>trace := trace w' @ [ConnClose]\<rparr>))"

text \<open>
  \<open>metadata.drop_all\<close> drops the four tables with their sequences, \<open>metadata.create_all\<close>
  creates those that do not exist.
\<close>

definition drop_all :: "unit io" where
  "drop_all w =
     (Inr (), w\<lparr>db := (db w)\<lparr>schema := False, table := (\<lambda>_. []), next_id := (\<lambda>_. 1)\<rparr>,
               trace := trace w @ [DropAll]\<rparr>)"

definition create_all :: "unit io" where
  "create_all w = (Inr (), w\<lparr>db := (db w)\<lparr>schema := True\<rparr>, trace := trace w @ [CreateAll]\<rparr>)"

definition engine_dispose :: "engine \<Rightarrow> unit io" where
  "engine_dispose async_engine = log_event EngineDispose"

definition os_environ :: "string \<Rightarrow> string io" where
  "os_environ key w =
     (case map_of (environ w) key of
        None \<Rightarrow> (Inl (Exn KeyError key), w)
      | Some v \<Rightarrow> (Inr v, w))"

section \<open>The helpers\<close>

text \<open>
  \<^verbatim>\<open>
  def get_engine_async(database_url: str, *, echo: bool = True) -> engine.AsyncEngine:
      return asyncio_ext.create_async_engine(database_url, echo=echo, future=True)

  def get_async_sessions_maker(async_engine: engine.AsyncEngine) -> orm.sessionmaker:
      return orm.sessionmaker(
          async_engine, expire_on_commit=False, class_=asyncio_ext.AsyncSession)
  \<close>
\<close>

definition get_engine_async :: "string \<Rightarrow> bool \<Rightarrow> engine io" where
  "get_engine_async database_url echo = create_async_engine database_url echo True"

definition get_async_sessions_maker :: "engine \<Rightarrow> sessionmaker" where
  "get_async_sessions_maker async_engine =
     \<lparr>bind_engine = async_engine, expire_on_commit = False\<rparr>"

text \<open>
  \<open>print(format_divider(label), end=ending)\<close>, at the default width. The coroutines
  of the model run where memory is no constraint.
\<close>

definition print_divider :: "string \<Rightarrow> string \<Rightarrow> unit io" where
  "print_divider label ending =
     bind_io (lift_io (format_divider None label DIVIDER_WIDTH))
       (\<lambda>divider. py_print divider ending)"

text \<open>
  \<^verbatim>\<open>
  async def flush_database_async(*, async_engine: engine.AsyncEngine) -> None:
      async with async_engine.begin() as conn:
          await conn.run_sync(models.Base.metadata.drop_all)
          await conn.run_sync(models.Base.metadata.create_all)
  \<close>
\<close>

definition flush_database_async :: "engine \<Rightarrow> val io" where
  "flush_database_async async_engine =
     bind_io (with_connection async_engine (bind_io drop_all (\<lambda>_. create_all)))
       (\<lambda>_. ret_io VNone)"

text \<open>
  \<^verbatim>\<open>
  async def execute_verbosely_async(coroutine, *, label: str) -> ReturnValue:
      print(format_divider(f"Start Execution of {label!r}"))
      result = await coroutine
      print(format_divider("Result"))
      print(result if result is not None else "(no result)")
      print(format_divider("End"), end="\n\n\n")
      return result
  \<close>
\<close>

definition execute_verbosely_async :: "val io \<Rightarrow> string \<Rightarrow> val io" where
  "execute_verbosely_async coroutine label =
     bind_io (print_divider (''Start Execution of '' @ py_repr_str label) newline) (\<lambda>_.
     bind_io coroutine (\<lambda>result.
     bind_io (print_divider ''Result'' newline) (\<lambda>_.
     bind_io (py_print (if result \<noteq> VNone then py_str result else ''(no result)'') newline) (\<lambda>_.
     bind_io (print_divider ''End'' (newline @ newline @ newline)) (\<lambda>_.
     ret_io result)))))"

text \<open>
  \<^verbatim>\<open>
  async def create_orm_instance_async(orm_model, creation_kwargs, *, session_maker):
      instance = orm_model(**creation_kwargs)
      async with session_maker() as session:
          async with session.begin():
              session.add(instance)

      return sqlalchemy.select(orm_model).where(getattr(orm_model, "id") == instance.id)
  \<close>
\<close>

definition create_orm_instance_async :: "orm_model \<Rightarrow> (string \<times> val) list \<Rightarrow> sessionmaker
    \<Rightarrow> select io" where
  "create_orm_instance_async orm_model creation_kwargs session_maker =
     bind_io (construct orm_model creation_kwargs) (\<lambda>inst.
     bind_io (with_session session_maker (\<lambda>session.
                transaction session (session_add session inst))) (\<lambda>inst.
     bind_io (getattr_orm (VObj inst) ''id'') (\<lambda>inst_id.
     ret_io (select_where_id orm_model inst_id))))"

text \<open>
  \<^verbatim>\<open>
  async def access_attribute_with_server_default(orm_model, *, session_maker):
      traveler = orm_model(name="Sebastiaan", age=35)
      async with session_maker() as session:
          async with session.begin():
              session.add(traveler)

          print(format_divider("Engine activity after committing ORM-instance"))
          try:
              result = f"Traveler Sebastiaan created at: {traveler.created_at}"
          except exc.MissingGreenlet as exception:
              print(f"Cannot access lazy attribute: {exception!r}")
              result = None

      return result
  \<close>
\<close>

definition access_attribute_with_server_default :: "orm_model \<Rightarrow> sessionmaker \<Rightarrow> val io" where
  "access_attribute_with_server_default orm_model session_maker =
     bind_io (construct orm_model [(''name'', VStr ''Sebastiaan''), (''age'', VInt 35)]) (\<lambda>traveler.
     with_session session_maker (\<lambda>session.
       bind_io (transaction session (session_add session traveler)) (\<lambda>traveler.
       bind_io (print_divider ''Engine activity after committing ORM-instance'' newline) (\<lambda>_.
       try_except MissingGreenlet
         (bind_io (getattr_orm (VObj traveler) ''created_at'') (\<lambda>created_at.
          ret_io (VStr (''Traveler Sebastiaan created at: '' @ py_str created_at))))
         (\<lambda>exception.
            bind_io (py_print (''Cannot access lazy attribute: '' @ repr_exn exception) newline)
              (\<lambda>_. ret_io VNone))))))"

section \<open>The scenarios\<close>

text \<open>
  \<^verbatim>\<open>
  async def simple_statement(message: str, *, async_engine) -> str:
      statement = sqlalchemy.text("SELECT :message")
      async with async_engine.connect() as conn:
          result = await conn.execute(statement, parameters={"message": message})

      return cast(str, result.scalar())
  \<close>
\<close>

definition simple_statement :: "string \<Rightarrow> engine \<Rightarrow> val io" where
  "simple_statement message async_engine =
     (let statement = SelectBindParam ''message''
      in bind_io (with_connection async_engine
                    (conn_execute statement [(''message'', VStr message)])) (\<lambda>result.
         ret_io (scalar result)))"

definition lazy_loading :: "sessionmaker \<Rightarrow> val io" where
  "lazy_loading session_maker = access_attribute_with_server_default LazyTraveler session_maker"

definition eager_loading :: "sessionmaker \<Rightarrow> val io" where
  "eager_loading session_maker = access_attribute_with_server_default EagerTraveler session_maker"

text \<open>
  The three scenarios on the relationship build the same keyword arguments, with a new
  \<open>Country(name="Norway")\<close> as the destination.
  \<^verbatim>\<open>
  async def unloaded_relationship(*, session_maker) -> str:
      select_traveler = await helpers.create_orm_instance_async(
          orm_model=models.TravelerWithDestination,
          creation_kwargs={
              "name": "Sebastiaan", "age": 35, "destination": models.Country(name="Norway")},
          session_maker=session_maker)
      async with session_maker() as session:
          result = await session.execute(select_traveler)
          traveler = cast(models.TravelerWithDestination, result.scalar())
      return f"{traveler!r}"
  \<close>
\<close>

definition unloaded_relationship :: "sessionmaker \<Rightarrow> val io" where
  "unloaded_relationship session_maker =
     bind_io (construct Country [(''name'', VStr ''Norway'')]) (\<lambda>country.
     bind_io (create_orm_instance_async TravelerWithDestination
                [(''name'', VStr ''Sebastiaan''), (''age'', VInt 35),
                 (''destination'', VObj country)]
                session_maker) (\<lambda>select_traveler.
     bind_io (with_session session_maker (\<lambda>session.
                bind_io (session_execute session select_traveler) (\<lambda>result.
                ret_io (scalar result)))) (\<lambda>traveler.
     bind_io (format_repr traveler) (\<lambda>representation.
     ret_io (VStr representation)))))"

text \<open>
  \<^verbatim>\<open>
  async def _get_destination(traveler_select, *, session_maker) -> str | None:
      async with session_maker() as session:
          result = await session.execute(traveler_select)
          traveler = cast(models.TravelerWithDestination, result.scalar())
          print(helpers.format_divider("Engine activity after fetching ORM-instance"))
          try:
              result = f"The traveler is traveling to {traveler.destination.name!r}"
          except exc.MissingGreenlet as exception:
              print(f"Cannot access lazy attribute: {exception!r}")
              result = None
      return result
  \<close>
\<close>

definition get_destination :: "select \<Rightarrow> sessionmaker \<Rightarrow> val io" where
  "get_destination traveler_select session_maker =
     with_session session_maker (\<lambda>session.
       bind_io (session_execute session traveler_select) (\<lambda>result.
       let traveler = scalar result in
       bind_io (print_divider ''Engine activity after fetching ORM-instance'' newline) (\<lambda>_.
       try_except MissingGreenlet
         (bind_io (getattr_orm traveler ''destination'') (\<lambda>destination.
          bind_io (getattr_orm destination ''name'') (\<lambda>name.
          ret_io (VStr (''The traveler is traveling to '' @ py_repr name)))))
         (\<lambda>exception.
            bind_io (py_print (''Cannot access lazy attribute: '' @ repr_exn exception) newline)
              (\<lambda>_. ret_io VNone)))))"

definition access_unloaded_relationship :: "sessionmaker \<Rightarrow> val io" where
  "access_unloaded_relationship session_maker =
     bind_io (construct Country [(''name'', VStr ''Norway'')]) (\<lambda>country.
     bind_io (create_orm_instance_async TravelerWithDestination
                [(''name'', VStr ''Sebastiaan''), (''age'', VInt 35),
                 (''destination'', VObj country)]
                session_maker) (\<lambda>select_traveler.
     get_destination select_traveler session_maker))"

definition access_loaded_relationship :: "sessionmaker \<Rightarrow> val io" where
  "access_loaded_relationship session_maker =
     bind_io (construct Country [(''name'', VStr ''Norway'')]) (\<lambda>country.
     bind_io (create_orm_instance_async TravelerWithDestination
                [(''name'', VStr ''Sebastiaan''), (''age'', VInt 35),
                 (''destination'', VObj country)]
                session_maker) (\<lambda>select_traveler.
     let joinedload_select = options_joinedload select_traveler ''destination''
     in get_destination joinedload_select session_maker))"

text \<open>
  \<^verbatim>\<open>
  async def main():
      async_engine = helpers.get_engine_async(os.environ["DATABASE_URL"])
      session_maker = helpers.get_async_sessions_maker(async_engine)
      await helpers.execute_verbosely_async(
          helpers.flush_database_async(async_engine=async_engine), label="flush_db")
      targets = { "simple": simple_statement("Hello, world!", async_engine=async_engine),
                  "lazy_loading": lazy_loading(session_maker=session_maker), ... }
      for label, coroutine in targets.items():
          await helpers.execute_verbosely_async(coroutine, label=label)
      await async_engine.dispose()
  \<close>
  The dictionary keeps its entries in the order in which they are written, and the
  loop awaits them in that order and discards the result of each call.
\<close>

definition targets :: "engine \<Rightarrow> sessionmaker \<Rightarrow> (string \<times> val io) list" where
  "targets async_engine session_maker =
     [(''simple'', simple_statement ''Hello, world!'' async_engine),
      (''lazy_loading'', lazy_loading session_maker),
      (''eager_loading'', eager_loading session_maker),
      (''unloaded_relationship'', unloaded_relationship session_maker),
      (''access_unloaded_relationship'', access_unloaded_relationship session_maker),
      (''access_loaded_relationship'', access_loaded_relationship session_maker)]"

primrec run_targets :: "(string \<times> val io) list \<Rightarrow> unit io" where
  "run_targets [] = ret_io ()"
| "run_targets (target # rest) =
     bind_io (execute_verbosely_async (snd target) (fst target)) (\<lambda>_. run_targets rest)"

definition main :: "val io" where
  "main =
     bind_io (os_environ ''DATABASE_URL'') (\<lambda>database_url.
     bind_io (get_engine_async database_url True) (\<lambda>async_engine.
     let session_maker = get_async_sessions_maker async_engine
     in bind_io (execute_verbosely_async (flush_database_async async_engine) ''flush_db'') (\<lambda>_.
        bind_io (run_targets (targets async_engine session_maker)) (\<lambda>_.
        bind_io (engine_dispose async_engine) (\<lambda>_.
        ret_io VNone)))))"

text \<open>
  A world to run on: nothing printed yet, an installation that has the one asynchronous
  driver \<open>postgresql+asyncpg\<close>, and behind the URL a database whose four tables exist
  and are empty.
\<close>

definition world0 :: world where
  "world0 =
     \<lparr>environ = [(''DATABASE_URL'', ''postgresql+asyncpg://localhost/demo'')],
      installation =
        (\<lambda>url. if url_drivername url = Some ''postgresql+asyncpg'' then None
              else Some (Exn NoSuchModuleError ''Cannot load plugin'')),
      console = [], trace = [],
      db = \<lparr>schema = True, table = (\<lambda>_. []), next_id = (\<lambda>_. 1),
            server_now = DateTime 2021 5 7 20 15 30 0\<rparr>,
      next_sid = 0, open_sessions = []\<rparr>"

definition engine0 :: engine where
  "engine0 =
     \<lparr>engine_url = ''postgresql+asyncpg://localhost/demo'', engine_echo = True,
      engine_future = True\<rparr>"

definition sm0 :: sessionmaker where
  "sm0 = get_async_sessions_maker engine0"

section \<open>Notions for stating the properties\<close>

text \<open>
  The divider of the default width, which \<open>format_divider\<close> returns for every label
  where memory is no constraint.
\<close>

definition divider80 :: "string \<Rightarrow> string" where
  "divider80 label =
     (case format_divider None label DIVIDER_WIDTH of Inl e \<Rightarrow> [] | Inr s \<Rightarrow> s)"

text \<open>
  A table is in order when its sequence is positive, has not run out, and is above the
  key of every row; the database is in order when the tables exist and are in order.
\<close>

definition table_ok :: "database \<Rightarrow> orm_model \<Rightarrow> bool" where
  "table_ok dbs m \<longleftrightarrow>
     0 < next_id dbs m \<and> next_id dbs m \<le> 2147483647
     \<and> list_all (\<lambda>v. case v of VInt k \<Rightarrow> k < next_id dbs m | _ \<Rightarrow> False) (row_ids dbs m)"

definition db_ok :: "database \<Rightarrow> bool" where
  "db_ok dbs \<longleftrightarrow>
     schema dbs
     \<and> list_all (table_ok dbs) [LazyTraveler, EagerTraveler, TravelerWithDestination, Country]"

text \<open>The database with one more row in a table, whose sequence has advanced.\<close>

definition add_row :: "orm_model \<Rightarrow> row \<Rightarrow> database \<Rightarrow> database" where
  "add_row m r dbs =
     dbs\<lparr>next_id := (next_id dbs)(m := next_id dbs m + 1),
         table := (table dbs)(m := table dbs m @ [r])\<rparr>"

definition traveler_row :: "database \<Rightarrow> orm_model \<Rightarrow> row" where
  "traveler_row dbs m =
     [(''id'', VInt (next_id dbs m)), (''created_at'', VDateTime (server_now dbs)),
      (''name'', VStr ''Sebastiaan''), (''age'', VInt 35)]"

definition norway_row :: "database \<Rightarrow> row" where
  "norway_row dbs = [(''id'', VInt (next_id dbs Country)), (''name'', VStr ''Norway'')]"

definition traveler_to_norway_row :: "database \<Rightarrow> row" where
  "traveler_to_norway_row dbs =
     traveler_row dbs TravelerWithDestination
       @ [(''destination_id'', VInt (next_id dbs Country))]"

text \<open>The database after one of the three scenarios on the relationship.\<close>

definition with_traveler_to_norway :: "database \<Rightarrow> database" where
  "with_traveler_to_norway dbs =
     add_row TravelerWithDestination (traveler_to_norway_row dbs)
       (add_row Country (norway_row dbs) dbs)"

text \<open>The line that only the handler of the caught exception prints.\<close>

definition caught_line :: string where
  "caught_line = ''Cannot access lazy attribute: '' @ repr_exn missing_greenlet @ newline"

text \<open>
  The order the specification gives to every scenario: before the first read of a field
  other than the key, a session has been closed and a statement has been executed.
\<close>

fun is_target_read :: "event \<Rightarrow> bool" where
  "is_target_read (AttrRead m key) = (key \<noteq> ''id'')"
| "is_target_read _ = False"

fun is_session_close :: "event \<Rightarrow> bool" where
  "is_session_close (SessionClose s) = True"
| "is_session_close _ = False"

fun is_session_execute :: "event \<Rightarrow> bool" where
  "is_session_execute (SessionExecute s m) = True"
| "is_session_execute _ = False"

definition refetched_before_read :: "event list \<Rightarrow> bool" where
  "refetched_before_read tr =
     (let before = takeWhile (\<lambda>e. \<not> is_target_read e) tr
      in list_ex is_target_read tr \<and> list_ex is_session_close before
         \<and> list_ex is_session_execute before)"

text \<open>The database after \<open>drop_all\<close> and \<open>create_all\<close>: the tables exist and are empty.\<close>

definition fresh_db :: "database \<Rightarrow> database" where
  "fresh_db dbs = dbs\<lparr>schema := True, table := (\<lambda>_. []), next_id := (\<lambda>_. 1)\<rparr>"

text \<open>
  The representation of the traveler that \<open>unloaded_relationship\<close> fetches, the sentence
  of \<open>access_loaded_relationship\<close>, and the results of the six scenarios of \<open>main\<close>.
\<close>

definition unloaded_repr :: "database \<Rightarrow> string" where
  "unloaded_repr dbs =
     ''TravelerWithDestination(destination=<NOT_LOADED>, id=''
       @ show_int (next_id dbs TravelerWithDestination)
       @ '', created_at='' @ repr_datetime (server_now dbs)
       @ '', name='' @ [CHR 0x27] @ ''Sebastiaan'' @ [CHR 0x27]
       @ '', age=35, destination_id='' @ show_int (next_id dbs Country) @ '')''"

definition to_norway :: string where
  "to_norway = ''The traveler is traveling to '' @ [CHR 0x27] @ ''Norway'' @ [CHR 0x27]"

definition created_at_sentence :: "database \<Rightarrow> string" where
  "created_at_sentence dbs = ''Traveler Sebastiaan created at: '' @ str_datetime (server_now dbs)"

text \<open>
  What \<open>execute_verbosely_async\<close> prints for an operation with that label which prints
  \<open>output\<close> and returns \<open>result\<close>; and, for the six scenarios in the order of \<open>main\<close>
  on the database that \<open>main\<close> has recreated, the label, the output and the result.
\<close>

definition report :: "string \<Rightarrow> string \<Rightarrow> val \<Rightarrow> string" where
  "report label output result =
     divider80 (''Start Execution of '' @ py_repr_str label) @ newline @ output
       @ divider80 ''Result'' @ newline
       @ (if result = VNone then ''(no result)'' else py_str result) @ newline
       @ divider80 ''End'' @ newline @ newline @ newline"

definition scenario_reports :: "database \<Rightarrow> (string \<times> string \<times> val) list" where
  "scenario_reports dbs =
     [(''simple'', [], VStr ''Hello, world!''),
      (''lazy_loading'',
       divider80 ''Engine activity after committing ORM-instance'' @ newline @ caught_line,
       VNone),
      (''eager_loading'',
       divider80 ''Engine activity after committing ORM-instance'' @ newline,
       VStr (created_at_sentence dbs)),
      (''unloaded_relationship'', [], VStr (unloaded_repr (fresh_db dbs))),
      (''access_unloaded_relationship'',
       divider80 ''Engine activity after fetching ORM-instance'' @ newline @ caught_line,
       VNone),
      (''access_loaded_relationship'',
       divider80 ''Engine activity after fetching ORM-instance'' @ newline,
       VStr to_norway)]"

text \<open>
  The calls of the scenarios, by the number of the first session they open: of the two
  on the server default, of the creation that starts the three on the relationship,
  and of the representation of the traveler that \<open>unloaded_relationship\<close> fetches.
\<close>

definition server_default_events :: "orm_model \<Rightarrow> nat \<Rightarrow> event list" where
  "server_default_events m s =
     [Construct m, SessionOpen s, TxBegin s, SessionAdd s m, TxCommit s,
      AttrRead m ''created_at'', SessionClose s]"

definition create_events :: "nat \<Rightarrow> event list" where
  "create_events s =
     [Construct Country, Construct TravelerWithDestination, SessionOpen s, TxBegin s,
      SessionAdd s TravelerWithDestination, TxCommit s, SessionClose s,
      AttrRead TravelerWithDestination ''id'']"

definition unloaded_repr_events :: "event list" where
  "unloaded_repr_events =
     [Inspect TravelerWithDestination, AttrRead TravelerWithDestination ''id'',
      AttrRead TravelerWithDestination ''created_at'', AttrRead TravelerWithDestination ''name'',
      AttrRead TravelerWithDestination ''age'',
      AttrRead TravelerWithDestination ''destination_id'']"

definition main_events :: "nat \<Rightarrow> event list" where
  "main_events s =
     [ConnOpen, DropAll, CreateAll, ConnClose]
     @ [ConnOpen, ConnExecute, ConnClose]
     @ server_default_events LazyTraveler s
     @ server_default_events EagerTraveler (s + 1)
     @ create_events (s + 2)
     @ [SessionOpen (s + 3), SessionExecute (s + 3) TravelerWithDestination,
        SessionClose (s + 3)] @ unloaded_repr_events
     @ create_events (s + 4)
     @ [SessionOpen (s + 5), SessionExecute (s + 5) TravelerWithDestination,
        AttrRead TravelerWithDestination ''destination'', SessionClose (s + 5)]
     @ create_events (s + 6)
     @ [SessionOpen (s + 7), SessionExecute (s + 7) TravelerWithDestination,
        AttrRead TravelerWithDestination ''destination'', AttrRead Country ''name'',
        SessionClose (s + 7)]
     @ [EngineDispose]"

text \<open>The database at the end of \<open>main\<close>.\<close>

definition main_db :: "database \<Rightarrow> database" where
  "main_db dbs =
     (let db0 = fresh_db dbs;
          db1 = add_row LazyTraveler (traveler_row db0 LazyTraveler) db0;
          db2 = add_row EagerTraveler (traveler_row db1 EagerTraveler) db1
      in with_traveler_to_norway (with_traveler_to_norway (with_traveler_to_norway db2)))"

text \<open>
  The shapes of a scenario, read off the calls it makes. A read attempt is the read of
  an attribute other than the key, or the inspection that starts a representation.
  In the first shape, a transaction is committed, then a session is closed, then
  another session executes a statement, and only then comes the first read attempt.
  In the second, a transaction is committed and the first read attempt comes before
  any session is closed, and no statement is executed at all.
\<close>

fun is_read_attempt :: "event \<Rightarrow> bool" where
  "is_read_attempt (AttrRead m key) = (key \<noteq> ''id'')"
| "is_read_attempt (Inspect m) = True"
| "is_read_attempt _ = False"

fun is_commit :: "event \<Rightarrow> bool" where
  "is_commit (TxCommit s) = True"
| "is_commit _ = False"

fun executes_in_other_session :: "nat \<Rightarrow> event \<Rightarrow> bool" where
  "executes_in_other_session s (SessionExecute s' m) = (s' \<noteq> s)"
| "executes_in_other_session s _ = False"

definition insert_select_read :: "event list \<Rightarrow> bool" where
  "insert_select_read tr =
     (let before = takeWhile (\<lambda>e. \<not> is_read_attempt e) tr;
          committed = dropWhile (\<lambda>e. \<not> is_commit e) before;
          closed = dropWhile (\<lambda>e. \<not> is_session_close e) committed
      in list_ex is_read_attempt tr
         \<and> (case closed of
               SessionClose s # rest \<Rightarrow> list_ex (executes_in_other_session s) rest
             | _ \<Rightarrow> False))"

definition read_in_insert_session :: "event list \<Rightarrow> bool" where
  "read_in_insert_session tr =
     (let before = takeWhile (\<lambda>e. \<not> is_read_attempt e) tr
      in list_ex is_read_attempt tr \<and> list_ex is_commit before
         \<and> \<not> list_ex is_session_close before \<and> \<not> list_ex is_session_execute tr)"

text \<open>
  The statements of \<open>access_attribute_with_server_default\<close> and of \<open>_get_destination\<close>
  that come before the \<open>try\<close>, with the session left open: they give the traveler that
  the \<open>try\<close> reads, and the world in which it reads.
\<close>

definition before_try_server_default :: "orm_model \<Rightarrow> sessionmaker \<Rightarrow> val io" where
  "before_try_server_default orm_model session_maker =
     bind_io (construct orm_model [(''name'', VStr ''Sebastiaan''), (''age'', VInt 35)]) (\<lambda>traveler.
     bind_io (session_maker_call session_maker) (\<lambda>session.
     bind_io (transaction session (session_add session traveler)) (\<lambda>traveler.
     bind_io (print_divider ''Engine activity after committing ORM-instance'' newline) (\<lambda>_.
     ret_io (VObj traveler)))))"

definition before_try_get_destination :: "select \<Rightarrow> sessionmaker \<Rightarrow> val io" where
  "before_try_get_destination traveler_select session_maker =
     bind_io (session_maker_call session_maker) (\<lambda>session.
     bind_io (session_execute session traveler_select) (\<lambda>result.
     let traveler = scalar result in
     bind_io (print_divider ''Engine activity after fetching ORM-instance'' newline) (\<lambda>_.
     ret_io traveler)))"

text \<open>The common beginning of the three scenarios on the relationship.\<close>

definition create_traveler_to_norway :: "sessionmaker \<Rightarrow> select io" where
  "create_traveler_to_norway session_maker =
     bind_io (construct Country [(''name'', VStr ''Norway'')]) (\<lambda>country.
       create_orm_instance_async TravelerWithDestination
         [(''name'', VStr ''Sebastiaan''), (''age'', VInt 35), (''destination'', VObj country)]
         session_maker)"

text \<open>Executing a selector in a session of its own.\<close>

definition refetch :: "select \<Rightarrow> sessionmaker \<Rightarrow> val list list io" where
  "refetch statement session_maker =
     with_session session_maker (\<lambda>session. session_execute session statement)"

text \<open>The keyword arguments of the three scenarios on the relationship.\<close>

definition norway_kwargs :: "(string \<times> val) list" where
  "norway_kwargs =
     [(''name'', VStr ''Sebastiaan''), (''age'', VInt 35),
      (''destination'', VObj (Instance Country None False [] [(''name'', VStr ''Norway'')]))]"

section \<open>Auxiliary facts\<close>

lemma format_divider_default: "format_divider None label DIVIDER_WIDTH = Inr (divider80 label)"
  by (simp add: divider80_def format_divider_def format_center_def DIVIDER_WIDTH_def Let_def
      allocates_def PY_SSIZE_T_MAX_def)

lemma print_divider_run:
  "print_divider label ending w = (Inr (), w\<lparr>console := console w @ divider80 label @ ending\<rparr>)"
  by (simp add: print_divider_def bind_io_def lift_io_def py_print_def format_divider_default)

lemma exn_cls_missing_greenlet: "exn_cls missing_greenlet = MissingGreenlet"
  by (simp add: missing_greenlet_def)

lemma show_int_35: "show_int 35 = ''35''"
  by (simp add: show_int_def show_nat.simps [of 35] show_nat.simps [of 3] digit_def)

lemma show_int_1: "show_int 1 = ''1''"
  by (simp add: show_int_def show_nat.simps [of 1] show_nat.simps [of "Suc 0"] digit_def)

lemma repr_Sebastiaan: "py_repr_str ''Sebastiaan'' = [CHR 0x27] @ ''Sebastiaan'' @ [CHR 0x27]"
  by (simp add: py_repr_str_def py_escape_def Let_def)

lemma repr_Norway: "py_repr_str ''Norway'' = [CHR 0x27] @ ''Norway'' @ [CHR 0x27]"
  by (simp add: py_repr_str_def py_escape_def Let_def)

lemma fresh_id: "table_ok dbs m \<Longrightarrow> VInt (next_id dbs m) \<notin> set (row_ids dbs m)"
  by (auto simp add: table_ok_def list_all_iff)

lemma filter_fresh:
  "table_ok dbs m \<Longrightarrow> filter (\<lambda>r. lookup r ''id'' = VInt (next_id dbs m)) (table dbs m) = []"
  by (force simp add: table_ok_def list_all_iff row_ids_def filter_empty_conv)

lemma find_fresh:
  "table_ok dbs m \<Longrightarrow> find (\<lambda>r. lookup r ''id'' = VInt (next_id dbs m)) (table dbs m) = None"
  by (force simp add: table_ok_def list_all_iff row_ids_def find_None_iff)

lemma find_append:
  "find P (xs @ ys) = (case find P xs of None \<Rightarrow> find P ys | Some x \<Rightarrow> Some x)"
  by (induction xs) simp_all

lemma table_ok_fits: "table_ok dbs m \<Longrightarrow> fits SqlInteger (VInt (next_id dbs m))"
  by (simp add: table_ok_def)

lemma db_ok_table: "db_ok dbs \<Longrightarrow> table_ok dbs m"
  by (cases m) (simp_all add: db_ok_def)

lemma db_ok_schema: "db_ok dbs \<Longrightarrow> schema dbs"
  by (simp add: db_ok_def)

lemmas io_defs = bind_io_def ret_io_def raise_io_def lift_io_def log_event_def py_print_def
  try_except_def with_session_def session_maker_call_def session_close_def construct_def
  session_add_def session_commit_def transaction_def getattr_orm_def with_connection_def

lemmas orm_defs = mapper_attrs_def flush_instance_def flush_one_def insert_row_def
  after_insert_def set_attr_def lookup_def column_type_def read_attr_def
  get_async_sessions_maker_def session_execute_def scalar_def select_where_id_def
  options_joinedload_def load_instance_def joined_def foreign_key_def

subsection \<open>What each function does to a world whose database is in order\<close>

lemma simple_statement_run:
  "simple_statement message async_engine w =
     (Inr (VStr message), w\<lparr>trace := trace w @ [ConnOpen, ConnExecute, ConnClose]\<rparr>)"
  by (simp add: simple_statement_def io_defs conn_execute_def scalar_def)

lemma flush_database_async_run:
  "flush_database_async async_engine w =
     (Inr VNone,
      w\<lparr>trace := trace w @ [ConnOpen, DropAll, CreateAll, ConnClose],
        db := fresh_db (db w)\<rparr>)"
  by (simp add: flush_database_async_def io_defs drop_all_def create_all_def fresh_db_def)

lemma access_lazy_run:
  assumes "db_ok (db w)"
  shows "access_attribute_with_server_default LazyTraveler (get_async_sessions_maker e) w =
     (Inr VNone,
      w\<lparr>console := console w @ divider80 ''Engine activity after committing ORM-instance'' @ newline
            @ caught_line,
        trace := trace w @ [Construct LazyTraveler, SessionOpen (next_sid w), TxBegin (next_sid w),
           SessionAdd (next_sid w) LazyTraveler, TxCommit (next_sid w),
           AttrRead LazyTraveler ''created_at'', SessionClose (next_sid w)],
        db := add_row LazyTraveler (traveler_row (db w) LazyTraveler) (db w),
        next_sid := Suc (next_sid w),
        open_sessions := removeAll (next_sid w) (open_sessions w)\<rparr>)"
  using db_ok_schema [OF assms] db_ok_table [OF assms, of LazyTraveler]
    fresh_id [of "db w" LazyTraveler] table_ok_fits [of "db w" LazyTraveler]
  by (simp add: access_attribute_with_server_default_def io_defs orm_defs
     print_divider_run Let_def add_row_def traveler_row_def caught_line_def
     exn_cls_missing_greenlet)

lemma access_eager_run:
  assumes "db_ok (db w)"
  shows "access_attribute_with_server_default EagerTraveler (get_async_sessions_maker e) w =
     (Inr (VStr (created_at_sentence (db w))),
      w\<lparr>console := console w @ divider80 ''Engine activity after committing ORM-instance'' @ newline,
        trace := trace w @ [Construct EagerTraveler, SessionOpen (next_sid w), TxBegin (next_sid w),
           SessionAdd (next_sid w) EagerTraveler, TxCommit (next_sid w),
           AttrRead EagerTraveler ''created_at'', SessionClose (next_sid w)],
        db := add_row EagerTraveler (traveler_row (db w) EagerTraveler) (db w),
        next_sid := Suc (next_sid w),
        open_sessions := removeAll (next_sid w) (open_sessions w)\<rparr>)"
  using db_ok_schema [OF assms] db_ok_table [OF assms, of EagerTraveler]
    fresh_id [of "db w" EagerTraveler] table_ok_fits [of "db w" EagerTraveler]
  by (simp add: access_attribute_with_server_default_def io_defs orm_defs
     print_divider_run Let_def add_row_def traveler_row_def created_at_sentence_def)

lemma create_traveler_to_norway_run:
  assumes "db_ok (db w)"
  shows "create_traveler_to_norway (get_async_sessions_maker e) w =
     (Inr (select_where_id TravelerWithDestination (VInt (next_id (db w) TravelerWithDestination))),
      w\<lparr>trace := trace w @ [Construct Country, Construct TravelerWithDestination,
           SessionOpen (next_sid w), TxBegin (next_sid w),
           SessionAdd (next_sid w) TravelerWithDestination, TxCommit (next_sid w),
           SessionClose (next_sid w), AttrRead TravelerWithDestination ''id''],
        db := with_traveler_to_norway (db w),
        next_sid := Suc (next_sid w),
        open_sessions := removeAll (next_sid w) (open_sessions w)\<rparr>)"
  using db_ok_schema [OF assms] db_ok_table [OF assms, of TravelerWithDestination]
    db_ok_table [OF assms, of Country]
    fresh_id [of "db w" TravelerWithDestination] table_ok_fits [of "db w" TravelerWithDestination]
    fresh_id [of "db w" Country] table_ok_fits [of "db w" Country]
  by (simp add: create_traveler_to_norway_def create_orm_instance_async_def io_defs orm_defs
     row_ids_def Let_def add_row_def traveler_row_def with_traveler_to_norway_def norway_row_def
     traveler_to_norway_row_def)

lemma scenario_unfold:
  "unloaded_relationship sm =
     bind_io (create_traveler_to_norway sm) (\<lambda>select_traveler.
     bind_io (with_session sm (\<lambda>session.
                bind_io (session_execute session select_traveler) (\<lambda>result.
                ret_io (scalar result)))) (\<lambda>traveler.
     bind_io (format_repr traveler) (\<lambda>representation.
     ret_io (VStr representation))))"
  "access_unloaded_relationship sm =
     bind_io (create_traveler_to_norway sm) (\<lambda>select_traveler.
       get_destination select_traveler sm)"
  "access_loaded_relationship sm =
     bind_io (create_traveler_to_norway sm) (\<lambda>select_traveler.
       get_destination (options_joinedload select_traveler ''destination'') sm)"
  by (rule ext, simp add: unloaded_relationship_def access_unloaded_relationship_def
      access_loaded_relationship_def create_traveler_to_norway_def bind_io_def Let_def
      split: prod.splits sum.splits)+

text \<open>The row that the selector of \<open>create_traveler_to_norway\<close> finds afterwards.\<close>

lemma select_after_create:
  assumes "db_ok dbs"
  shows "filter (\<lambda>r. lookup r ''id'' = VInt (next_id dbs TravelerWithDestination))
           (table (with_traveler_to_norway dbs) TravelerWithDestination)
         = [traveler_to_norway_row dbs]"
  using filter_fresh [OF db_ok_table [OF assms, of TravelerWithDestination]]
  by (simp add: with_traveler_to_norway_def add_row_def traveler_to_norway_row_def
      traveler_row_def lookup_def)

lemma find_after_create:
  assumes "db_ok dbs"
  shows "find (\<lambda>c. lookup c ''id'' = VInt (next_id dbs Country))
           (table (with_traveler_to_norway dbs) Country)
         = Some (norway_row dbs)"
  using find_fresh [OF db_ok_table [OF assms, of Country]]
  by (simp add: with_traveler_to_norway_def add_row_def norway_row_def find_append lookup_def)

lemma schema_after_create: "schema (with_traveler_to_norway dbs) = schema dbs"
  by (simp add: with_traveler_to_norway_def add_row_def)

lemma unloaded_relationship_run:
  assumes "db_ok (db w)"
  shows "unloaded_relationship (get_async_sessions_maker e) w =
     (Inr (VStr (unloaded_repr (db w))),
      w\<lparr>trace := trace w @ [Construct Country, Construct TravelerWithDestination,
           SessionOpen (next_sid w), TxBegin (next_sid w),
           SessionAdd (next_sid w) TravelerWithDestination, TxCommit (next_sid w),
           SessionClose (next_sid w), AttrRead TravelerWithDestination ''id'',
           SessionOpen (Suc (next_sid w)),
           SessionExecute (Suc (next_sid w)) TravelerWithDestination,
           SessionClose (Suc (next_sid w)), Inspect TravelerWithDestination,
           AttrRead TravelerWithDestination ''id'',
           AttrRead TravelerWithDestination ''created_at'',
           AttrRead TravelerWithDestination ''name'', AttrRead TravelerWithDestination ''age'',
           AttrRead TravelerWithDestination ''destination_id''],
        db := with_traveler_to_norway (db w),
        next_sid := Suc (Suc (next_sid w)),
        open_sessions := removeAll (Suc (next_sid w)) (removeAll (next_sid w) (open_sessions w))\<rparr>)"
proof -
  note create = create_traveler_to_norway_run [OF assms, of e]
  have fits: "fits SqlInteger (VInt (next_id (db w) TravelerWithDestination))"
    by (rule table_ok_fits [OF db_ok_table [OF assms]])
  show ?thesis
    unfolding scenario_unfold
    using fits db_ok_schema [OF assms]
    by (simp add: bind_io_def create with_session_def session_maker_call_def
        session_close_def session_execute_def log_event_def ret_io_def scalar_def
        select_where_id_def schema_after_create
        select_after_create [OF assms] load_instance_def Let_def
        traveler_to_norway_row_def traveler_row_def RepresentableMixin_repr_def unloaded_def
        mapper_attrs_def str_join_def unloaded_repr_def show_int_35 repr_Sebastiaan
        format_repr_def)
qed

lemma access_unloaded_relationship_run:
  assumes "db_ok (db w)"
  shows "access_unloaded_relationship (get_async_sessions_maker e) w =
     (Inr VNone,
      w\<lparr>console := console w @ divider80 ''Engine activity after fetching ORM-instance'' @ newline
            @ caught_line,
        trace := trace w @ [Construct Country, Construct TravelerWithDestination,
           SessionOpen (next_sid w), TxBegin (next_sid w),
           SessionAdd (next_sid w) TravelerWithDestination, TxCommit (next_sid w),
           SessionClose (next_sid w), AttrRead TravelerWithDestination ''id'',
           SessionOpen (Suc (next_sid w)),
           SessionExecute (Suc (next_sid w)) TravelerWithDestination,
           AttrRead TravelerWithDestination ''destination'',
           SessionClose (Suc (next_sid w))],
        db := with_traveler_to_norway (db w),
        next_sid := Suc (Suc (next_sid w)),
        open_sessions := removeAll (Suc (next_sid w)) (removeAll (next_sid w) (open_sessions w))\<rparr>)"
proof -
  note create = create_traveler_to_norway_run [OF assms, of e]
  have fits: "fits SqlInteger (VInt (next_id (db w) TravelerWithDestination))"
    by (rule table_ok_fits [OF db_ok_table [OF assms]])
  show ?thesis
    unfolding scenario_unfold
    using fits db_ok_schema [OF assms]
    by (simp add: bind_io_def create get_destination_def with_session_def session_maker_call_def
        session_close_def session_execute_def log_event_def ret_io_def scalar_def
        select_where_id_def schema_after_create
        select_after_create [OF assms] select_after_create [OF assms, unfolded lookup_def]
        load_instance_def Let_def print_divider_run
        try_except_def getattr_orm_def read_attr_def mapper_attrs_def lookup_def foreign_key_def
        traveler_to_norway_row_def traveler_row_def py_print_def caught_line_def
        exn_cls_missing_greenlet)
qed

lemma access_loaded_relationship_run:
  assumes "db_ok (db w)"
  shows "access_loaded_relationship (get_async_sessions_maker e) w =
     (Inr (VStr to_norway),
      w\<lparr>console := console w @ divider80 ''Engine activity after fetching ORM-instance'' @ newline,
        trace := trace w @ [Construct Country, Construct TravelerWithDestination,
           SessionOpen (next_sid w), TxBegin (next_sid w),
           SessionAdd (next_sid w) TravelerWithDestination, TxCommit (next_sid w),
           SessionClose (next_sid w), AttrRead TravelerWithDestination ''id'',
           SessionOpen (Suc (next_sid w)),
           SessionExecute (Suc (next_sid w)) TravelerWithDestination,
           AttrRead TravelerWithDestination ''destination'', AttrRead Country ''name'',
           SessionClose (Suc (next_sid w))],
        db := with_traveler_to_norway (db w),
        next_sid := Suc (Suc (next_sid w)),
        open_sessions := removeAll (Suc (next_sid w)) (removeAll (next_sid w) (open_sessions w))\<rparr>)"
proof -
  note create = create_traveler_to_norway_run [OF assms, of e]
  have fits: "fits SqlInteger (VInt (next_id (db w) TravelerWithDestination))"
    by (rule table_ok_fits [OF db_ok_table [OF assms]])
  show ?thesis
    unfolding scenario_unfold
    using fits db_ok_schema [OF assms]
    by (simp add: bind_io_def create get_destination_def with_session_def session_maker_call_def
        session_close_def session_execute_def log_event_def ret_io_def scalar_def
        select_where_id_def options_joinedload_def
        schema_after_create
        select_after_create [OF assms] find_after_create [OF assms]
        select_after_create [OF assms, unfolded lookup_def]
        find_after_create [OF assms, unfolded lookup_def] lookup_def
        load_instance_def joined_def Let_def print_divider_run
        try_except_def getattr_orm_def read_attr_def mapper_attrs_def foreign_key_def
        traveler_to_norway_row_def traveler_row_def norway_row_def py_print_def
        to_norway_def repr_Norway)
qed

lemma execute_verbosely_async_unfold:
  "execute_verbosely_async coroutine label w =
     (case coroutine (w\<lparr>console := console w
               @ divider80 (''Start Execution of '' @ py_repr_str label) @ newline\<rparr>) of
        (Inl e, w') \<Rightarrow> (Inl e, w')
      | (Inr result, w') \<Rightarrow>
          (Inr result,
           w'\<lparr>console := console w' @ divider80 ''Result'' @ newline
                @ (if result = VNone then ''(no result)'' else py_str result) @ newline
                @ divider80 ''End'' @ newline @ newline @ newline\<rparr>))"
  by (simp add: execute_verbosely_async_def bind_io_def print_divider_run py_print_def ret_io_def
      split: prod.splits sum.splits)

lemma db_ok_world0: "db_ok (db world0)"
  by (simp add: db_ok_def table_ok_def row_ids_def world0_def)

lemma world0_sel:
  "console world0 = []" "trace world0 = []" "next_sid world0 = 0" "open_sessions world0 = []"
  "server_now (db world0) = DateTime 2021 5 7 20 15 30 0"
  "map_of (environ world0) ''DATABASE_URL'' = Some ''postgresql+asyncpg://localhost/demo''"
  "next_id (db world0) m = 1" "table (db world0) m = []"
  by (simp_all add: world0_def)

lemma url_drivername_world0:
  "url_drivername ''postgresql+asyncpg://localhost/demo'' = Some ''postgresql+asyncpg''"
  by (simp add: url_drivername_def is_word_char_def Let_def)

lemma get_engine_async_world0:
  "get_engine_async ''postgresql+asyncpg://localhost/demo'' True world0 = (Inr engine0, world0)"
  by (simp add: get_engine_async_def create_async_engine_def url_drivername_world0 world0_def
      engine0_def)

lemma db_ok_fresh: "db_ok (fresh_db dbs)"
  by (simp add: db_ok_def table_ok_def row_ids_def fresh_db_def)

text \<open>A connection string that does not parse ends \<open>main\<close> before anything is printed.\<close>

lemma main_malformed_url:
  assumes "map_of (environ w) ''DATABASE_URL'' = Some url" and "url_drivername url = None"
  shows "main w
    = (Inl (Exn ArgumentError
              (''Could not parse rfc1738 URL from string '' @ [CHR 0x27] @ url @ [CHR 0x27])),
       w)"
  using assms
  by (simp add: main_def os_environ_def bind_io_def get_engine_async_def
      create_async_engine_def)

lemma url_drivername_empty: "url_drivername [] = None"
  by (simp add: url_drivername_def)

subsection \<open>The INSERT of a new instance\<close>

lemma lookup_map_cols: "k \<in> set ks \<Longrightarrow> lookup (map (\<lambda>c. (c, f c)) ks) k = f k"
  by (induction ks) (auto simp add: lookup_def)

lemma id_in_columns: "''id'' \<in> set (columns m)"
  by (cases m) simp_all

lemma id_in_mapper_attrs: "''id'' \<in> set (mapper_attrs m)"
  by (simp add: mapper_attrs_def id_in_columns)

text \<open>
  The key of the row of an INSERT that the server accepts: the next of the sequence
  when the instance has none, its own otherwise; and no row of the table has it yet.
\<close>

lemma insert_row_new:
  assumes "insert_row m d dbs = Inr (r, dbs')"
  shows "table dbs' m = table dbs m @ [r]"
    and "lookup r ''id''
           = (if lookup d ''id'' = VNone then VInt (next_id dbs m) else lookup d ''id'')"
    and "lookup r ''id'' \<notin> set (row_ids dbs m)"
    and "fits SqlInteger (lookup r ''id'')" and "schema dbs'"
  using assms
  by (auto simp add: insert_row_def Let_def lookup_map_cols id_in_columns row_ids_def
      split: if_splits)

lemma insert_row_frame:
  assumes "insert_row m d dbs = Inr (r, dbs')" and "m' \<noteq> m"
  shows "table dbs' m' = table dbs m' \<and> next_id dbs' m' = next_id dbs m'"
  using assms by (auto simp add: insert_row_def Let_def split: if_splits)

lemma after_insert_id:
  "map_of (attrs_dict (after_insert s m d r)) ''id'' = Some (lookup r ''id'')
   \<and> cls (after_insert s m d r) = m"
  by (simp add: after_insert_def Let_def update_conv' delete_conv')

lemma flush_one_new:
  assumes "flush_one s inst dbs = Inr (inst', dbs')" and "\<not> persistent inst"
  shows "table dbs' (cls inst) = table dbs (cls inst) @ [last (table dbs' (cls inst))]"
    and "lookup (last (table dbs' (cls inst))) ''id''
           = (if lookup (attrs_dict inst) ''id'' = VNone then VInt (next_id dbs (cls inst))
              else lookup (attrs_dict inst) ''id'')"
    and "lookup (last (table dbs' (cls inst))) ''id'' \<notin> set (row_ids dbs (cls inst))"
    and "fits SqlInteger (lookup (last (table dbs' (cls inst))) ''id'')"
    and "schema dbs'"
    and "map_of (attrs_dict inst') ''id'' = Some (lookup (last (table dbs' (cls inst))) ''id'')"
    and "cls inst' = cls inst"
proof -
  from assms obtain r where ins: "insert_row (cls inst) (attrs_dict inst) dbs = Inr (r, dbs')"
    and inst': "inst' = after_insert s (cls inst) (attrs_dict inst) r"
    by (auto simp add: flush_one_def split: sum.splits)
  note new = insert_row_new [OF ins]
  from new(1) have l: "last (table dbs' (cls inst)) = r" by simp
  show "table dbs' (cls inst) = table dbs (cls inst) @ [last (table dbs' (cls inst))]"
    unfolding l by (rule new(1))
  show "lookup (last (table dbs' (cls inst))) ''id''
           = (if lookup (attrs_dict inst) ''id'' = VNone then VInt (next_id dbs (cls inst))
              else lookup (attrs_dict inst) ''id'')"
    unfolding l by (rule new(2))
  show "lookup (last (table dbs' (cls inst))) ''id'' \<notin> set (row_ids dbs (cls inst))"
    unfolding l by (rule new(3))
  show "fits SqlInteger (lookup (last (table dbs' (cls inst))) ''id'')"
    unfolding l by (rule new(4))
  show "schema dbs'" by (rule new(5))
  show "map_of (attrs_dict inst') ''id'' = Some (lookup (last (table dbs' (cls inst))) ''id'')"
    unfolding l inst' using after_insert_id [of s "cls inst" "attrs_dict inst" r] by blast
  show "cls inst' = cls inst"
    unfolding inst' using after_insert_id [of s "cls inst" "attrs_dict inst" r] by blast
qed

lemma flush_one_frame:
  assumes "flush_one s c dbs = Inr (c', dbs')" and "m \<noteq> cls c"
  shows "table dbs' m = table dbs m \<and> next_id dbs' m = next_id dbs m"
  using assms insert_row_frame [of "cls c" "attrs_dict c" dbs _ dbs' m]
  by (auto simp add: flush_one_def split: if_splits sum.splits)

lemma lookup_set_attr:
  "key \<noteq> k \<Longrightarrow> lookup (attrs_dict (set_attr inst key v)) k = lookup (attrs_dict inst) k"
  by (simp add: set_attr_def lookup_def update_conv')

lemma flush_instance_new:
  assumes flushed: "flush_instance s (Instance m None False [] d) dbs = Inr (inst', dbs')"
  shows "table dbs' m = table dbs m @ [last (table dbs' m)]
         \<and> lookup (last (table dbs' m)) ''id''
             = (if lookup d ''id'' = VNone then VInt (next_id dbs m) else lookup d ''id'')
         \<and> lookup (last (table dbs' m)) ''id'' \<notin> set (row_ids dbs m)
         \<and> fits SqlInteger (lookup (last (table dbs' m)) ''id'')
         \<and> schema dbs'
         \<and> map_of (attrs_dict inst') ''id'' = Some (lookup (last (table dbs' m)) ''id'')
         \<and> cls inst' = m"
proof -
  let ?inst = "Instance m None False [] d"
  have step: "table dbs' m = table dbs m @ [last (table dbs' m)]
         \<and> lookup (last (table dbs' m)) ''id''
             = (if lookup d ''id'' = VNone then VInt (next_id dbs m) else lookup d ''id'')
         \<and> lookup (last (table dbs' m)) ''id'' \<notin> set (row_ids dbs m)
         \<and> fits SqlInteger (lookup (last (table dbs' m)) ''id'')
         \<and> schema dbs'
         \<and> map_of (attrs_dict inst') ''id'' = Some (lookup (last (table dbs' m)) ''id'')
         \<and> cls inst' = m"
    if one: "flush_one s i dbs1 = Inr (inst', dbs')" and i: "cls i = m" "\<not> persistent i"
      "lookup (attrs_dict i) ''id'' = lookup d ''id''"
      and frame: "table dbs1 m = table dbs m" "next_id dbs1 m = next_id dbs m"
    for i dbs1
  proof -
    have ids: "row_ids dbs1 m = row_ids dbs m" using frame(1) by (simp add: row_ids_def)
    note new = flush_one_new [OF one i(2), unfolded i(1) i(3) frame ids]
    show ?thesis
      by (intro conjI) (rule new)+
  qed
  show ?thesis
  proof (cases "''destination'' \<in> set (relationships m)")
    case False
    with flushed have "flush_one s ?inst dbs = Inr (inst', dbs')"
      by (simp add: flush_instance_def)
    then show ?thesis by (intro step [of ?inst dbs]) simp_all
  next
    case True
    then have m: "m = TravelerWithDestination" by (cases m) simp_all
    show ?thesis
    proof (cases "map_of d ''destination''")
      case None
      with flushed True have "flush_one s ?inst dbs = Inr (inst', dbs')"
        by (simp add: flush_instance_def)
      then show ?thesis by (intro step [of ?inst dbs]) simp_all
    next
      case (Some v)
      show ?thesis
      proof (cases v)
        case VNone
        with flushed True Some
        have "flush_one s (set_attr ?inst ''destination_id'' VNone) dbs = Inr (inst', dbs')"
          by (simp add: flush_instance_def)
        then show ?thesis
          using lookup_set_attr [of "''destination_id''" "''id''" ?inst VNone]
          by (intro step [of "set_attr ?inst ''destination_id'' VNone" dbs])
            (simp_all add: set_attr_def)
      next
        case (VObj c)
        with flushed True Some obtain c' dbs1 where
          country: "cls c = Country" "flush_one s c dbs = Inr (c', dbs1)"
          and one: "flush_one s (set_attr (set_attr ?inst ''destination'' (VObj c'))
                      ''destination_id'' (lookup (attrs_dict c') ''id'')) dbs1 = Inr (inst', dbs')"
          by (auto simp add: flush_instance_def split: if_splits sum.splits)
        from country m flush_one_frame [OF country(2), of m]
        have frame: "table dbs1 m = table dbs m" "next_id dbs1 m = next_id dbs m"
          by simp_all
        have "lookup (attrs_dict (set_attr (set_attr ?inst ''destination'' (VObj c'))
                      ''destination_id'' (lookup (attrs_dict c') ''id''))) ''id'' = lookup d ''id''"
          by (simp add: lookup_set_attr)
        then show ?thesis
          using frame by (intro step [OF one]) (simp_all add: set_attr_def)
      next
        case (VInt x) with flushed True Some show ?thesis by (simp add: flush_instance_def)
      next
        case (VStr x) with flushed True Some show ?thesis by (simp add: flush_instance_def)
      next
        case (VDateTime x) with flushed True Some show ?thesis by (simp add: flush_instance_def)
      qed
    qed
  qed
qed
section \<open>The claims\<close>

text \<open>
  C1. Let DATABASE_URL be a connection string from which the engine is created. Then
  \<open>main\<close> recreates the schema and runs the six scenarios in its fixed order (simple,
  lazy_loading, eager_loading, unloaded_relationship, access_unloaded_relationship,
  access_loaded_relationship); each call of the loop returns the result of its
  scenario, and of the six results four are not None and two are None, those of
  lazy_loading and of access_unloaded_relationship. \<open>main\<close> drops the results and
  returns None; what it prints is the report of the schema reset followed by the six
  reports of the scenarios, each with its result or "(no result)", and the calls it has
  made and the database it leaves are those of the six scenarios.
\<close>

theorem main_four_results_two_failures:
  assumes url: "map_of (environ w) ''DATABASE_URL'' = Some url"
    and engine: "get_engine_async url True w = (Inr e, w)"
  shows "let ts = targets e (get_async_sessions_maker e);
             w0 = snd (execute_verbosely_async (flush_database_async e) ''flush_db'' w)
         in map (\<lambda>n. fst (execute_verbosely_async (snd (ts ! n)) (fst (ts ! n))
                            (snd (run_targets (take n ts) w0))))
              [0, 1, 2, 3, 4, 5]
              = map (\<lambda>(label, output, result). Inr result) (scenario_reports (db w))
            \<and> map fst ts = map fst (scenario_reports (db w))
            \<and> map (\<lambda>(label, output, result). result = VNone) (scenario_reports (db w))
                = [False, True, False, False, True, False]
            \<and> fst (main w) = Inr VNone
            \<and> console (snd (main w))
                = console w @ report ''flush_db'' [] VNone
                    @ concat (map (\<lambda>(label, output, result). report label output result)
                                (scenario_reports (db w)))
            \<and> trace (snd (main w)) = trace w @ main_events (next_sid w)
            \<and> db (snd (main w)) = main_db (db w)"
proof -
  let ?sm = "get_async_sessions_maker e"
  define w0 where "w0 = snd (execute_verbosely_async (flush_database_async e) ''flush_db'' w)"
  note runs = execute_verbosely_async_unfold flush_database_async_run simple_statement_run
    lazy_loading_def eager_loading_def access_lazy_run access_eager_run
    unloaded_relationship_run access_unloaded_relationship_run access_loaded_relationship_run
  note dbs = db_ok_def table_ok_def row_ids_def add_row_def with_traveler_to_norway_def
    fresh_db_def traveler_row_def norway_row_def traveler_to_norway_row_def lookup_def
  have flush: "execute_verbosely_async (flush_database_async e) ''flush_db'' w = (Inr VNone, w0)"
    by (simp add: w0_def execute_verbosely_async_unfold flush_database_async_run)
  have w0: "db w0 = fresh_db (db w)" "next_sid w0 = next_sid w"
    "console w0 = console w @ report ''flush_db'' [] VNone"
    "trace w0 = trace w @ [ConnOpen, DropAll, CreateAll, ConnClose]"
    by (simp_all add: w0_def execute_verbosely_async_unfold flush_database_async_run report_def)
  have sucs: "n + 3 = Suc (Suc (Suc n))" "n + 4 = Suc (Suc (Suc (Suc n)))"
    "n + 5 = Suc (Suc (Suc (Suc (Suc n))))" "n + 6 = Suc (Suc (Suc (Suc (Suc (Suc n)))))"
    "n + 7 = Suc (Suc (Suc (Suc (Suc (Suc (Suc n))))))"
    "n + 8 = Suc (Suc (Suc (Suc (Suc (Suc (Suc (Suc n)))))))" for n :: nat
    by simp_all
  have loop: "run_targets (targets e ?sm) w0
      = (Inr (),
         w0\<lparr>console := console w0
                @ concat (map (\<lambda>(label, output, result). report label output result)
                            (scenario_reports (db w))),
            trace := trace w @ butlast (main_events (next_sid w)),
            db := main_db (db w),
            next_sid := next_sid w + 8,
            open_sessions :=
              removeAll (next_sid w + 7) (removeAll (next_sid w + 6)
                (removeAll (next_sid w + 5) (removeAll (next_sid w + 4)
                  (removeAll (next_sid w + 3) (removeAll (next_sid w + 2)
                    (removeAll (next_sid w + 1) (removeAll (next_sid w)
                      (open_sessions w0))))))))\<rparr>)"
    by (simp add: targets_def bind_io_def ret_io_def runs w0 dbs report_def scenario_reports_def
        main_events_def server_default_events_def create_events_def unloaded_repr_events_def
        main_db_def unloaded_repr_def created_at_sentence_def Let_def sucs)
  have main: "main w = (Inr VNone,
      (snd (run_targets (targets e ?sm) w0))
        \<lparr>trace := trace (snd (run_targets (targets e ?sm) w0)) @ [EngineDispose]\<rparr>)"
    using url engine
    by (simp add: main_def os_environ_def bind_io_def ret_io_def Let_def engine_dispose_def
        log_event_def flush loop)
  have results: "map (\<lambda>n. fst (execute_verbosely_async (snd (targets e ?sm ! n))
                            (fst (targets e ?sm ! n))
                            (snd (run_targets (take n (targets e ?sm)) w0)))) [0, 1, 2, 3, 4, 5]
      = map (\<lambda>(label, output, result). Inr result) (scenario_reports (db w))"
    by (simp add: targets_def bind_io_def ret_io_def runs w0 dbs scenario_reports_def
        unloaded_repr_def created_at_sentence_def Let_def)
  have labels: "map fst (targets e ?sm) = map fst (scenario_reports (db w))"
    by (simp add: targets_def scenario_reports_def)
  have split: "map (\<lambda>(label, output, result). result = VNone) (scenario_reports (db w))
      = [False, True, False, False, True, False]"
    by (simp add: scenario_reports_def)
  have events: "butlast (main_events (next_sid w)) @ [EngineDispose] = main_events (next_sid w)"
    by (simp add: main_events_def butlast_append)
  have final: "fst (main w) = Inr VNone"
    "console (snd (main w))
       = console w @ report ''flush_db'' [] VNone
           @ concat (map (\<lambda>(label, output, result). report label output result)
                       (scenario_reports (db w)))"
    "trace (snd (main w)) = trace w @ main_events (next_sid w)"
    "db (snd (main w)) = main_db (db w)"
    using events by (simp_all add: main loop w0)
  show ?thesis
    unfolding Let_def w0_def [symmetric]
    using results labels split final by blast
qed

theorem main_four_results_two_failures_witness:
  "fst (main world0) = Inr VNone
   \<and> console (snd (main world0))
       = report ''flush_db'' [] VNone
           @ report ''simple'' [] (VStr ''Hello, world!'')
           @ report ''lazy_loading''
               (divider80 ''Engine activity after committing ORM-instance'' @ newline
                  @ caught_line) VNone
           @ report ''eager_loading''
               (divider80 ''Engine activity after committing ORM-instance'' @ newline)
               (VStr (''Traveler Sebastiaan created at: ''
                        @ str_datetime (DateTime 2021 5 7 20 15 30 0)))
           @ report ''unloaded_relationship'' [] (VStr (unloaded_repr (fresh_db (db world0))))
           @ report ''access_unloaded_relationship''
               (divider80 ''Engine activity after fetching ORM-instance'' @ newline
                  @ caught_line) VNone
           @ report ''access_loaded_relationship''
               (divider80 ''Engine activity after fetching ORM-instance'' @ newline)
               (VStr to_norway)
   \<and> length (filter (\<lambda>(label, output, result). result = VNone)
               (scenario_reports (db world0))) = 2
   \<and> length (filter (\<lambda>(label, output, result). result \<noteq> VNone)
               (scenario_reports (db world0))) = 4"
  using main_four_results_two_failures
    [of world0 "''postgresql+asyncpg://localhost/demo''" engine0]
  by (simp add: world0_sel get_engine_async_world0 scenario_reports_def Let_def
      created_at_sentence_def)

text \<open>
  C2. On a database in order, in lazy_loading the statements before the \<open>try\<close> insert a
  LazyTraveler in a transaction that is committed and leave it, with its \<open>created_at\<close>
  expired, in a session that is still open; the read of \<open>created_at\<close> of that traveler
  in that world raises MissingGreenlet; and the scenario, which makes that read and no
  other, prints the exception and returns None. In access_unloaded_relationship the
  traveler is inserted, the session closed, and the traveler fetched in a new session
  by a selector with no eager-load option; the read of \<open>destination\<close> of the fetched
  traveler raises MissingGreenlet in the same way, and the scenario prints it and
  returns None.
\<close>

theorem caught_failures_return_none:
  assumes "db_ok (db w)"
  shows "let session_maker = get_async_sessions_maker e;
             s = next_sid w;
             lazy_traveler = VObj (Instance LazyTraveler (Some s) True [''created_at'']
                 [(''name'', VStr ''Sebastiaan''), (''age'', VInt 35),
                  (''id'', VInt (next_id (db w) LazyTraveler))]);
             lazy_read = w\<lparr>console := console w
                   @ divider80 ''Engine activity after committing ORM-instance'' @ newline,
                 trace := trace w @ [Construct LazyTraveler, SessionOpen s, TxBegin s,
                   SessionAdd s LazyTraveler, TxCommit s],
                 db := add_row LazyTraveler (traveler_row (db w) LazyTraveler) (db w),
                 next_sid := Suc s, open_sessions := s # open_sessions w\<rparr>;
             statement = select_where_id TravelerWithDestination
                 (VInt (next_id (db w) TravelerWithDestination));
             created = w\<lparr>trace := trace w @ [Construct Country,
                   Construct TravelerWithDestination, SessionOpen s, TxBegin s,
                   SessionAdd s TravelerWithDestination, TxCommit s, SessionClose s,
                   AttrRead TravelerWithDestination ''id''],
                 db := with_traveler_to_norway (db w),
                 next_sid := Suc s, open_sessions := removeAll s (open_sessions w)\<rparr>;
             fetched_traveler = VObj (Instance TravelerWithDestination (Some (Suc s)) True []
                 (traveler_to_norway_row (db w)));
             fetched_read = created\<lparr>console := console w
                   @ divider80 ''Engine activity after fetching ORM-instance'' @ newline,
                 trace := trace created @ [SessionOpen (Suc s),
                   SessionExecute (Suc s) TravelerWithDestination],
                 next_sid := Suc (Suc s),
                 open_sessions := Suc s # open_sessions created\<rparr>
         in before_try_server_default LazyTraveler session_maker w = (Inr lazy_traveler, lazy_read)
            \<and> getattr_orm lazy_traveler ''created_at'' lazy_read
                = (Inl missing_greenlet,
                   lazy_read\<lparr>trace := trace lazy_read @ [AttrRead LazyTraveler ''created_at'']\<rparr>)
            \<and> exn_cls missing_greenlet = MissingGreenlet
            \<and> lazy_loading session_maker w
                = (Inr VNone,
                   lazy_read\<lparr>console := console lazy_read @ caught_line,
                     trace := trace lazy_read
                       @ [AttrRead LazyTraveler ''created_at'', SessionClose s],
                     open_sessions := removeAll s (open_sessions w)\<rparr>)
            \<and> create_traveler_to_norway session_maker w = (Inr statement, created)
            \<and> before_try_get_destination statement session_maker created
                = (Inr fetched_traveler, fetched_read)
            \<and> getattr_orm fetched_traveler ''destination'' fetched_read
                = (Inl missing_greenlet,
                   fetched_read\<lparr>trace := trace fetched_read
                     @ [AttrRead TravelerWithDestination ''destination'']\<rparr>)
            \<and> access_unloaded_relationship session_maker w
                = (Inr VNone,
                   fetched_read\<lparr>console := console fetched_read @ caught_line,
                     trace := trace fetched_read
                       @ [AttrRead TravelerWithDestination ''destination'',
                          SessionClose (Suc s)],
                     open_sessions := removeAll (Suc s) (removeAll s (open_sessions w))\<rparr>)"
proof -
  let ?sm = "get_async_sessions_maker e"
  let ?s = "next_sid w"
  let ?lazy_traveler = "VObj (Instance LazyTraveler (Some ?s) True [''created_at'']
      [(''name'', VStr ''Sebastiaan''), (''age'', VInt 35),
       (''id'', VInt (next_id (db w) LazyTraveler))])"
  let ?lazy_read = "w\<lparr>console := console w
        @ divider80 ''Engine activity after committing ORM-instance'' @ newline,
      trace := trace w @ [Construct LazyTraveler, SessionOpen ?s, TxBegin ?s,
        SessionAdd ?s LazyTraveler, TxCommit ?s],
      db := add_row LazyTraveler (traveler_row (db w) LazyTraveler) (db w),
      next_sid := Suc ?s, open_sessions := ?s # open_sessions w\<rparr>"
  let ?statement = "select_where_id TravelerWithDestination
      (VInt (next_id (db w) TravelerWithDestination))"
  let ?created = "w\<lparr>trace := trace w @ [Construct Country,
        Construct TravelerWithDestination, SessionOpen ?s, TxBegin ?s,
        SessionAdd ?s TravelerWithDestination, TxCommit ?s, SessionClose ?s,
        AttrRead TravelerWithDestination ''id''],
      db := with_traveler_to_norway (db w),
      next_sid := Suc ?s, open_sessions := removeAll ?s (open_sessions w)\<rparr>"
  let ?fetched_traveler = "VObj (Instance TravelerWithDestination (Some (Suc ?s)) True []
      (traveler_to_norway_row (db w)))"
  let ?fetched_read = "?created\<lparr>console := console w
        @ divider80 ''Engine activity after fetching ORM-instance'' @ newline,
      trace := trace ?created @ [SessionOpen (Suc ?s),
        SessionExecute (Suc ?s) TravelerWithDestination],
      next_sid := Suc (Suc ?s),
      open_sessions := Suc ?s # open_sessions ?created\<rparr>"
  have before_lazy: "before_try_server_default LazyTraveler ?sm w
      = (Inr ?lazy_traveler, ?lazy_read)"
    using db_ok_schema [OF assms] db_ok_table [OF assms, of LazyTraveler]
      fresh_id [of "db w" LazyTraveler] table_ok_fits [of "db w" LazyTraveler]
    by (simp add: before_try_server_default_def io_defs orm_defs print_divider_run Let_def
        add_row_def traveler_row_def)
  have read_lazy: "getattr_orm ?lazy_traveler ''created_at'' ?lazy_read
      = (Inl missing_greenlet,
         ?lazy_read\<lparr>trace := trace ?lazy_read @ [AttrRead LazyTraveler ''created_at'']\<rparr>)"
    by (simp add: getattr_orm_def bind_io_def log_event_def read_attr_def mapper_attrs_def)
  have lazy: "lazy_loading ?sm w
      = (Inr VNone,
         ?lazy_read\<lparr>console := console ?lazy_read @ caught_line,
           trace := trace ?lazy_read @ [AttrRead LazyTraveler ''created_at'', SessionClose ?s],
           open_sessions := removeAll ?s (open_sessions w)\<rparr>)"
    using access_lazy_run [OF assms, of e] by (simp add: lazy_loading_def)
  have create: "create_traveler_to_norway ?sm w = (Inr ?statement, ?created)"
    by (rule create_traveler_to_norway_run [OF assms])
  have fits: "fits SqlInteger (VInt (next_id (db w) TravelerWithDestination))"
    by (rule table_ok_fits [OF db_ok_table [OF assms]])
  have before_fetched: "before_try_get_destination ?statement ?sm ?created
      = (Inr ?fetched_traveler, ?fetched_read)"
    using fits db_ok_schema [OF assms]
    by (simp add: before_try_get_destination_def bind_io_def session_maker_call_def
        get_async_sessions_maker_def session_execute_def log_event_def ret_io_def scalar_def
        select_where_id_def schema_after_create select_after_create [OF assms]
        load_instance_def Let_def print_divider_run)
  have read_fetched: "getattr_orm ?fetched_traveler ''destination'' ?fetched_read
      = (Inl missing_greenlet,
         ?fetched_read\<lparr>trace := trace ?fetched_read
           @ [AttrRead TravelerWithDestination ''destination'']\<rparr>)"
    by (simp add: getattr_orm_def bind_io_def log_event_def read_attr_def mapper_attrs_def
        traveler_to_norway_row_def traveler_row_def lookup_def foreign_key_def)
  have unloaded: "access_unloaded_relationship ?sm w
      = (Inr VNone,
         ?fetched_read\<lparr>console := console ?fetched_read @ caught_line,
           trace := trace ?fetched_read
             @ [AttrRead TravelerWithDestination ''destination'', SessionClose (Suc ?s)],
           open_sessions := removeAll (Suc ?s) (removeAll ?s (open_sessions w))\<rparr>)"
    using access_unloaded_relationship_run [OF assms, of e] by simp
  show ?thesis
    unfolding Let_def
    using before_lazy read_lazy exn_cls_missing_greenlet lazy create before_fetched
      read_fetched unloaded
    by blast
qed

theorem caught_failures_return_none_witness:
  "db_ok (db world0)
   \<and> fst (lazy_loading sm0 world0) = Inr VNone
   \<and> fst (access_unloaded_relationship sm0 world0) = Inr VNone
   \<and> console (snd (lazy_loading sm0 world0))
       = divider80 ''Engine activity after committing ORM-instance'' @ newline @ caught_line
   \<and> trace (snd (lazy_loading sm0 world0))
       = [Construct LazyTraveler, SessionOpen 0, TxBegin 0, SessionAdd 0 LazyTraveler,
          TxCommit 0, AttrRead LazyTraveler ''created_at'', SessionClose 0]
   \<and> table (db (snd (lazy_loading sm0 world0))) LazyTraveler
       = [[(''id'', VInt 1), (''created_at'', VDateTime (DateTime 2021 5 7 20 15 30 0)),
           (''name'', VStr ''Sebastiaan''), (''age'', VInt 35)]]
   \<and> fst (getattr_orm
            (VObj (Instance LazyTraveler (Some 0) True [''created_at'']
               [(''name'', VStr ''Sebastiaan''), (''age'', VInt 35), (''id'', VInt 1)]))
            ''created_at'' (snd (before_try_server_default LazyTraveler sm0 world0)))
       = Inl missing_greenlet"
  using caught_failures_return_none [OF db_ok_world0, of engine0]
  by (simp add: db_ok_world0 sm0_def world0_sel Let_def add_row_def traveler_row_def)

text \<open>
  C3, as stated: eager_loading reads the creation timestamp after insert-and-refetch.
  It does not: the scenario executes no statement after the insert, and reads the
  attribute of the instance it inserted, in the session of the insert.
\<close>

theorem eager_loading_refetch_counterexample:
  "trace (snd (eager_loading sm0 world0)) =
     [Construct EagerTraveler, SessionOpen 0, TxBegin 0, SessionAdd 0 EagerTraveler, TxCommit 0,
      AttrRead EagerTraveler ''created_at'', SessionClose 0]
   \<and> \<not> list_ex is_session_execute (trace (snd (eager_loading sm0 world0)))
   \<and> \<not> refetched_before_read (trace (snd (eager_loading sm0 world0)))"
  using access_eager_run
    [OF db_ok_world0, of engine0]
  by (simp add: eager_loading_def sm0_def world0_sel refetched_before_read_def)

text \<open>
  C3, amended. For every run of eager_loading on a database in order, the read of the
  creation timestamp, made after the insert has been committed, in the session of the
  insert and with no refetch, succeeds, and the scenario returns the string
  "Traveler Sebastiaan created at: " followed by the timestamp, which is not empty.
\<close>

theorem eager_loading_succeeds:
  assumes "db_ok (db w)"
  shows "fst (eager_loading (get_async_sessions_maker e) w)
           = Inr (VStr (''Traveler Sebastiaan created at: '' @ str_datetime (server_now (db w))))
         \<and> str_datetime (server_now (db w)) \<noteq> []
         \<and> trace (snd (eager_loading (get_async_sessions_maker e) w))
             = trace w @ [Construct EagerTraveler, SessionOpen (next_sid w), TxBegin (next_sid w),
                 SessionAdd (next_sid w) EagerTraveler, TxCommit (next_sid w),
                 AttrRead EagerTraveler ''created_at'', SessionClose (next_sid w)]"
  using access_eager_run [OF assms, of e]
  by (simp add: eager_loading_def created_at_sentence_def str_datetime_def)

theorem eager_loading_succeeds_witness:
  "db_ok (db world0)
   \<and> fst (eager_loading sm0 world0)
       = Inr (VStr (''Traveler Sebastiaan created at: ''
                      @ str_datetime (DateTime 2021 5 7 20 15 30 0)))"
  using eager_loading_succeeds
    [OF db_ok_world0, of engine0]
  by (simp add: db_ok_world0 sm0_def world0_sel)

text \<open>
  C4. For every run of unloaded_relationship on a database in order, the representation
  of the refetched traveler, whose destination was not requested by the selector, is
  computed without an exception, and it marks the destination as not loaded.
\<close>

theorem unloaded_relationship_repr:
  assumes "db_ok (db w)"
  shows "fst (unloaded_relationship (get_async_sessions_maker e) w)
           = Inr (VStr (unloaded_repr (db w)))
         \<and> sublist ''destination=<NOT_LOADED>'' (unloaded_repr (db w))"
proof -
  have "unloaded_repr (db w) = ''TravelerWithDestination('' @ ''destination=<NOT_LOADED>''
      @ ('', id='' @ show_int (next_id (db w) TravelerWithDestination)
       @ '', created_at='' @ repr_datetime (server_now (db w))
       @ '', name='' @ [CHR 0x27] @ ''Sebastiaan'' @ [CHR 0x27]
       @ '', age=35, destination_id='' @ show_int (next_id (db w) Country) @ '')'')"
    by (simp add: unloaded_repr_def)
  then have "sublist ''destination=<NOT_LOADED>'' (unloaded_repr (db w))"
    unfolding sublist_def by blast
  with unloaded_relationship_run [OF assms, of e] show ?thesis by simp
qed

theorem unloaded_relationship_repr_witness:
  "db_ok (db world0)
   \<and> fst (unloaded_relationship sm0 world0) = Inr (VStr (unloaded_repr (db world0)))
   \<and> sublist ''destination=<NOT_LOADED>'' (unloaded_repr (db world0))"
  using unloaded_relationship_repr
    [OF db_ok_world0, of engine0]
  by (simp add: db_ok_world0 sm0_def)



text \<open>
  C6, as stated: for every set of constructor arguments create_orm_instance_async
  inserts the record and returns a selector. It does not when the constructor refuses
  the arguments: a keyword that is no attribute of the model raises TypeError before any
  session is opened, and nothing is inserted. Nor does it when the database refuses the
  INSERT: a \<open>destination_id\<close> that is the key of no country violates the foreign key,
  the transaction is rolled back, the session is closed, IntegrityError leaves the
  function, and the table stays empty.
\<close>

theorem create_orm_instance_async_refused_counterexample:
  "create_orm_instance_async Country [(''capital'', VStr ''Oslo'')] sm0 world0
     = (Inl (Exn TypeError (py_repr_str ''capital''
               @ '' is an invalid keyword argument for Country'')), world0)
   \<and> fst (create_orm_instance_async TravelerWithDestination
            [(''name'', VStr ''Sebastiaan''), (''destination_id'', VInt 7)] sm0 world0)
       = Inl (Exn IntegrityError ''foreign key violation'')
   \<and> table (db (snd (create_orm_instance_async TravelerWithDestination
                        [(''name'', VStr ''Sebastiaan''), (''destination_id'', VInt 7)]
                        sm0 world0))) TravelerWithDestination = []
   \<and> trace (snd (create_orm_instance_async TravelerWithDestination
                    [(''name'', VStr ''Sebastiaan''), (''destination_id'', VInt 7)]
                    sm0 world0))
       = [Construct TravelerWithDestination, SessionOpen 0, TxBegin 0,
          SessionAdd 0 TravelerWithDestination, TxRollback 0, SessionClose 0]"
  by (simp add: create_orm_instance_async_def io_defs orm_defs sm0_def world0_def Let_def
      row_ids_def)

text \<open>
  C6, amended. For every model and all keyword arguments that the constructor of the
  model accepts and whose INSERT the database accepts, create_orm_instance_async
  inserts the new record in a transaction that is committed, closes the session, and
  then returns a selector, a statement and not the record: the selection from the
  model's table by the key of the inserted record, which is the key that the database
  assigned when the arguments give none, and the key of the arguments otherwise.
  Executed in a new session, the selector fetches exactly one record, the row that was
  inserted.
\<close>

theorem create_orm_instance_async_selector:
  assumes kwargs: "set_kwargs m kwargs [] = Inr d"
    and accepted: "flush_instance (next_sid w) (Instance m None False [] d) (db w) = Inr flushed"
  shows "let r = last (table (snd flushed) m);
             statement = select_where_id m (lookup r ''id'');
             w' = w\<lparr>trace := trace w @ [Construct m, SessionOpen (next_sid w),
                        TxBegin (next_sid w), SessionAdd (next_sid w) m, TxCommit (next_sid w),
                        SessionClose (next_sid w), AttrRead m ''id''],
                    db := snd flushed,
                    next_sid := Suc (next_sid w),
                    open_sessions := removeAll (next_sid w) (open_sessions w)\<rparr>
         in create_orm_instance_async m kwargs (get_async_sessions_maker e) w
              = (Inr statement, w')
            \<and> table (snd flushed) m = table (db w) m @ [r]
            \<and> lookup r ''id''
                = (if lookup d ''id'' = VNone then VInt (next_id (db w) m) else lookup d ''id'')
            \<and> fst (refetch statement (get_async_sessions_maker e) w')
                = Inr [[VObj (Instance m (Some (Suc (next_sid w))) True [] r)]]"
proof -
  obtain inst' dbs' where flushed: "flushed = (inst', dbs')" by (cases flushed)
  define r where "r = last (table dbs' m)"
  define k where "k = lookup r ''id''"
  from flush_instance_new [OF accepted [unfolded flushed]]
  have tbl: "table dbs' m = table (db w) m @ [r]"
    and key: "k = (if lookup d ''id'' = VNone then VInt (next_id (db w) m) else lookup d ''id'')"
    and fresh: "k \<notin> set (row_ids (db w) m)"
    and fits: "fits SqlInteger k" and schema: "schema dbs'"
    and inst_key: "map_of (attrs_dict inst') ''id'' = Some k"
    and inst_cls: "cls inst' = m"
    unfolding k_def r_def by blast+
  have created: "create_orm_instance_async m kwargs (get_async_sessions_maker e) w
      = (Inr (select_where_id m k),
         w\<lparr>trace := trace w @ [Construct m, SessionOpen (next_sid w),
                        TxBegin (next_sid w), SessionAdd (next_sid w) m, TxCommit (next_sid w),
                        SessionClose (next_sid w), AttrRead m ''id''],
           db := dbs',
           next_sid := Suc (next_sid w),
           open_sessions := removeAll (next_sid w) (open_sessions w)\<rparr>)"
    using kwargs accepted [unfolded flushed] inst_key inst_cls
    by (simp add: create_orm_instance_async_def io_defs get_async_sessions_maker_def
        read_attr_def id_in_mapper_attrs Let_def)
  from fresh have none: "filter (\<lambda>r'. lookup r' ''id'' = k) (table (db w) m) = []"
    by (auto simp add: row_ids_def filter_empty_conv)
  have fetched: "fst (refetch (select_where_id m k)
        (get_async_sessions_maker e)
        (w\<lparr>trace := trace w @ [Construct m, SessionOpen (next_sid w),
                        TxBegin (next_sid w), SessionAdd (next_sid w) m, TxCommit (next_sid w),
                        SessionClose (next_sid w), AttrRead m ''id''],
           db := dbs',
           next_sid := Suc (next_sid w),
           open_sessions := removeAll (next_sid w) (open_sessions w)\<rparr>))
      = Inr [[VObj (Instance m (Some (Suc (next_sid w))) True [] r)]]"
    using schema fits none k_def [symmetric]
    by (simp add: refetch_def with_session_def session_maker_call_def session_close_def
        session_execute_def bind_io_def log_event_def select_where_id_def load_instance_def tbl)
  show ?thesis
    unfolding Let_def flushed snd_conv r_def [symmetric] k_def [symmetric]
    using created fetched tbl key by simp
qed

theorem create_orm_instance_async_selector_witness:
  "fst (create_orm_instance_async TravelerWithDestination norway_kwargs sm0 world0)
       = Inr (select_where_id TravelerWithDestination (VInt 1))
   \<and> fst (refetch (select_where_id TravelerWithDestination (VInt 1)) sm0
            (snd (create_orm_instance_async TravelerWithDestination norway_kwargs sm0 world0)))
       = Inr [[VObj (Instance TravelerWithDestination (Some 1) True []
                 [(''id'', VInt 1), (''created_at'', VDateTime (DateTime 2021 5 7 20 15 30 0)),
                  (''name'', VStr ''Sebastiaan''), (''age'', VInt 35),
                  (''destination_id'', VInt 1)])]]"
proof -
  let ?d = "[(''name'', VStr ''Sebastiaan''), (''age'', VInt 35),
      (''destination'', VObj (Instance Country None False [] [(''name'', VStr ''Norway'')]))]"
  let ?flush = "flush_instance 0
      (Instance TravelerWithDestination None False [] ?d) (db world0)"
  have k: "set_kwargs TravelerWithDestination norway_kwargs [] = Inr ?d"
    by (simp add: norway_kwargs_def mapper_attrs_def)
  have a: "flush_instance (next_sid world0)
      (Instance TravelerWithDestination None False [] ?d) (db world0) = Inr (projr ?flush)"
    by (simp add: orm_defs world0_def Let_def row_ids_def)
  have tbl: "table (snd (projr ?flush)) TravelerWithDestination
      = [[(''id'', VInt 1), (''created_at'', VDateTime (DateTime 2021 5 7 20 15 30 0)),
          (''name'', VStr ''Sebastiaan''), (''age'', VInt 35), (''destination_id'', VInt 1)]]"
    by (simp add: orm_defs world0_def Let_def row_ids_def)
  from create_orm_instance_async_selector [OF k a, of engine0]
  show ?thesis
    by (simp add: Let_def sm0_def tbl world0_sel lookup_def)
qed
text \<open>
  C7, as stated: every scenario has the shape CREATE, INSERT (committed, session
  closed), SELECT in a new session, READ-ATTEMPT, so that the insert session is closed
  and a new session has executed the selector before the field is read. lazy_loading
  does not: it reads \<open>created_at\<close> while the session of the insert is open, and never
  executes a statement.
\<close>

theorem lazy_loading_shape_counterexample:
  "trace (snd (lazy_loading sm0 world0)) =
     [Construct LazyTraveler, SessionOpen 0, TxBegin 0, SessionAdd 0 LazyTraveler, TxCommit 0,
      AttrRead LazyTraveler ''created_at'', SessionClose 0]
   \<and> \<not> refetched_before_read (trace (snd (lazy_loading sm0 world0)))"
  using access_lazy_run [OF db_ok_world0, of engine0]
  by (simp add: lazy_loading_def sm0_def world0_sel refetched_before_read_def)

text \<open>
  C7, amended. On a database in order, the three scenarios on the relationship
  (unloaded_relationship, access_unloaded_relationship, access_loaded_relationship)
  follow the shape CREATE, INSERT (committed, session closed), SELECT in a new session,
  READ-ATTEMPT: the read attempt of unloaded_relationship is the representation, which
  it computes after the second session is closed and which reads the loaded attributes
  only; the other two read \<open>destination\<close> inside the second session. lazy_loading and
  eager_loading follow the shape CREATE, INSERT (committed), READ-ATTEMPT in the session
  of the insert, which is closed only after the read, and execute no selector.
  simple_statement has neither shape: it opens a connection, executes its statement and
  closes the connection. On such a database every scenario ends in SUCCESS, a value
  returned (simple_statement, eager_loading, unloaded_relationship,
  access_loaded_relationship), or in CAUGHT-FAILURE, None returned and the message of
  the handler printed (lazy_loading, access_unloaded_relationship).
\<close>

theorem scenario_shapes:
  assumes "db_ok (db w)"
  shows "let session_maker = get_async_sessions_maker e;
             s = next_sid w;
             simple_calls = [ConnOpen, ConnExecute, ConnClose];
             lazy_calls = [Construct LazyTraveler, SessionOpen s, TxBegin s,
                 SessionAdd s LazyTraveler, TxCommit s, AttrRead LazyTraveler ''created_at'',
                 SessionClose s];
             eager_calls = [Construct EagerTraveler, SessionOpen s, TxBegin s,
                 SessionAdd s EagerTraveler, TxCommit s, AttrRead EagerTraveler ''created_at'',
                 SessionClose s];
             create_calls = [Construct Country, Construct TravelerWithDestination,
                 SessionOpen s, TxBegin s, SessionAdd s TravelerWithDestination, TxCommit s,
                 SessionClose s, AttrRead TravelerWithDestination ''id''];
             unloaded_calls = create_calls
                 @ [SessionOpen (Suc s), SessionExecute (Suc s) TravelerWithDestination,
                    SessionClose (Suc s), Inspect TravelerWithDestination,
                    AttrRead TravelerWithDestination ''id'',
                    AttrRead TravelerWithDestination ''created_at'',
                    AttrRead TravelerWithDestination ''name'',
                    AttrRead TravelerWithDestination ''age'',
                    AttrRead TravelerWithDestination ''destination_id''];
             access_unloaded_calls = create_calls
                 @ [SessionOpen (Suc s), SessionExecute (Suc s) TravelerWithDestination,
                    AttrRead TravelerWithDestination ''destination'', SessionClose (Suc s)];
             access_loaded_calls = create_calls
                 @ [SessionOpen (Suc s), SessionExecute (Suc s) TravelerWithDestination,
                    AttrRead TravelerWithDestination ''destination'', AttrRead Country ''name'',
                    SessionClose (Suc s)]
         in trace (snd (simple_statement message e w)) = trace w @ simple_calls
            \<and> \<not> insert_select_read simple_calls \<and> \<not> read_in_insert_session simple_calls
            \<and> fst (simple_statement message e w) = Inr (VStr message)
            \<and> trace (snd (lazy_loading session_maker w)) = trace w @ lazy_calls
            \<and> read_in_insert_session lazy_calls \<and> \<not> insert_select_read lazy_calls
            \<and> fst (lazy_loading session_maker w) = Inr VNone
            \<and> console (snd (lazy_loading session_maker w))
                = console w @ divider80 ''Engine activity after committing ORM-instance''
                    @ newline @ ''Cannot access lazy attribute: '' @ repr_exn missing_greenlet
                    @ newline
            \<and> trace (snd (eager_loading session_maker w)) = trace w @ eager_calls
            \<and> read_in_insert_session eager_calls \<and> \<not> insert_select_read eager_calls
            \<and> fst (eager_loading session_maker w) = Inr (VStr (created_at_sentence (db w)))
            \<and> trace (snd (unloaded_relationship session_maker w)) = trace w @ unloaded_calls
            \<and> insert_select_read unloaded_calls
            \<and> fst (unloaded_relationship session_maker w) = Inr (VStr (unloaded_repr (db w)))
            \<and> trace (snd (access_unloaded_relationship session_maker w))
                = trace w @ access_unloaded_calls
            \<and> insert_select_read access_unloaded_calls
            \<and> fst (access_unloaded_relationship session_maker w) = Inr VNone
            \<and> console (snd (access_unloaded_relationship session_maker w))
                = console w @ divider80 ''Engine activity after fetching ORM-instance''
                    @ newline @ ''Cannot access lazy attribute: '' @ repr_exn missing_greenlet
                    @ newline
            \<and> trace (snd (access_loaded_relationship session_maker w))
                = trace w @ access_loaded_calls
            \<and> insert_select_read access_loaded_calls
            \<and> fst (access_loaded_relationship session_maker w) = Inr (VStr to_norway)"
proof -
  note shapes = insert_select_read_def read_in_insert_session_def Let_def
  have simple: "\<not> insert_select_read [ConnOpen, ConnExecute, ConnClose]"
    "\<not> read_in_insert_session [ConnOpen, ConnExecute, ConnClose]"
    by (simp_all add: shapes)
  have server_default: "read_in_insert_session [Construct m, SessionOpen s, TxBegin s,
        SessionAdd s m, TxCommit s, AttrRead m ''created_at'', SessionClose s]"
    "\<not> insert_select_read [Construct m, SessionOpen s, TxBegin s,
        SessionAdd s m, TxCommit s, AttrRead m ''created_at'', SessionClose s]" for m s
    by (simp_all add: shapes)
  have relationship: "insert_select_read ([Construct Country, Construct TravelerWithDestination,
        SessionOpen s, TxBegin s, SessionAdd s TravelerWithDestination, TxCommit s,
        SessionClose s, AttrRead TravelerWithDestination ''id'']
      @ [SessionOpen (Suc s), SessionExecute (Suc s) TravelerWithDestination] @ rest)"
    if "list_ex is_read_attempt rest" for s rest
    using that by (simp add: shapes)
  show ?thesis
    unfolding Let_def
    using access_lazy_run [OF assms, of e] access_eager_run [OF assms, of e]
      unloaded_relationship_run [OF assms, of e]
      access_unloaded_relationship_run [OF assms, of e]
      access_loaded_relationship_run [OF assms, of e]
      simple server_default [of LazyTraveler "next_sid w"]
      server_default [of EagerTraveler "next_sid w"]
      relationship [of "[SessionClose (Suc (next_sid w)), Inspect TravelerWithDestination,
          AttrRead TravelerWithDestination ''id'',
          AttrRead TravelerWithDestination ''created_at'',
          AttrRead TravelerWithDestination ''name'',
          AttrRead TravelerWithDestination ''age'',
          AttrRead TravelerWithDestination ''destination_id'']" "next_sid w"]
      relationship [of "[AttrRead TravelerWithDestination ''destination'',
          SessionClose (Suc (next_sid w))]" "next_sid w"]
      relationship [of "[AttrRead TravelerWithDestination ''destination'',
          AttrRead Country ''name'', SessionClose (Suc (next_sid w))]" "next_sid w"]
    by (simp add: lazy_loading_def eager_loading_def simple_statement_run caught_line_def)
qed

theorem scenario_shapes_witness:
  "db_ok (db world0)
   \<and> trace (snd (unloaded_relationship sm0 world0))
       = [Construct Country, Construct TravelerWithDestination, SessionOpen 0, TxBegin 0,
          SessionAdd 0 TravelerWithDestination, TxCommit 0, SessionClose 0,
          AttrRead TravelerWithDestination ''id'', SessionOpen (Suc 0),
          SessionExecute (Suc 0) TravelerWithDestination, SessionClose (Suc 0),
          Inspect TravelerWithDestination, AttrRead TravelerWithDestination ''id'',
          AttrRead TravelerWithDestination ''created_at'',
          AttrRead TravelerWithDestination ''name'', AttrRead TravelerWithDestination ''age'',
          AttrRead TravelerWithDestination ''destination_id'']
   \<and> insert_select_read (trace (snd (unloaded_relationship sm0 world0)))
   \<and> insert_select_read (trace (snd (access_unloaded_relationship sm0 world0)))
   \<and> insert_select_read (trace (snd (access_loaded_relationship sm0 world0)))
   \<and> read_in_insert_session (trace (snd (lazy_loading sm0 world0)))
   \<and> read_in_insert_session (trace (snd (eager_loading sm0 world0)))
   \<and> fst (access_unloaded_relationship sm0 world0) = Inr VNone
   \<and> fst (access_loaded_relationship sm0 world0) = Inr (VStr to_norway)"
  using scenario_shapes [OF db_ok_world0, where message = "''Hello, world!''" and e = engine0]
  by (simp add: db_ok_world0 sm0_def world0_sel Let_def)

text \<open>
  C8, as stated: for every label and width format_divider returns a string of exactly
  the requested width, and has no error condition. A label of 77 characters at the
  default width of 80 comes back as its 81 characters; a negative width and a width of
  \<open>2 ^ 63\<close> raise ValueError; and a divider of 1001 characters where the longest
  string that can be allocated has 1000 raises MemoryError.
\<close>

theorem format_divider_width_counterexample:
  "format_divider None (replicate 77 CHR ''x'') DIVIDER_WIDTH
     = Inr (''| '' @ replicate 77 CHR ''x'' @ '' |'')
   \<and> length (''| '' @ replicate 77 CHR ''x'' @ '' |'') = 81
   \<and> format_divider None ''End'' (- 1)
       = Inl (Exn ValueError ''Sign not allowed in string format specifier'')
   \<and> format_divider None ''End'' (2 ^ 63)
       = Inl (Exn ValueError ''Too many decimal digits in format string'')
   \<and> format_divider (Some 1000) ''End'' 1001 = Inl (Exn MemoryError [])"
  by (simp add: format_divider_def format_center_def DIVIDER_WIDTH_def PY_SSIZE_T_MAX_def
      allocates_def Let_def)

text \<open>
  C8, amended. For every label and every width from 0 to \<open>2 ^ 63 - 1\<close> whose result
  the interpreter can allocate, format_divider returns, with no error, the label
  (rendered as "| label |" when it is not empty) between two runs of "=": the left run
  has half of the missing width, rounded down, and the right run the rest. The length of
  the result is the larger of the width and the length of the rendered label: the
  requested width when the rendered label fits, and the rendered label, not cut, when
  it does not.
\<close>

theorem format_divider_centered:
  assumes "0 \<le> width" and "width \<le> PY_SSIZE_T_MAX"
    and "allocates memory
           (max (nat width) (length (if label = [] then [] else ''| '' @ label @ '' |'')))"
  shows "let rendered = (if label = [] then [] else ''| '' @ label @ '' |'');
             missing = nat width - length rendered;
             l = missing div 2;
             r = missing - l
         in format_divider memory label width
              = Inr (replicate l CHR ''='' @ rendered @ replicate r CHR ''='')
            \<and> length (replicate l CHR ''='' @ rendered @ replicate r CHR ''='')
                = max (nat width) (length rendered)
            \<and> l \<le> r \<and> r \<le> l + 1"
proof -
  define rendered where "rendered = (if label = [] then [] else ''| '' @ label @ '' |'')"
  define missing where "missing = nat width - length rendered"
  have smaller: "allocates memory n" if "allocates memory k" and "n \<le> k" for n k
    using that by (cases memory) (simp_all add: allocates_def)
  have total: "allocates memory (max (nat width) (length rendered))"
    using assms(3) by (simp add: rendered_def)
  then have rendered_ok: "allocates memory (length rendered)"
    by (rule smaller) simp
  have diff: "max a b - b = a - b" "max a b - (b + c) = a - (b + c)" for a b c :: nat
    by (simp_all add: max_def)
  have call: "format_divider memory label width = format_center memory CHR ''='' rendered width"
    using rendered_ok [unfolded rendered_def]
    by (cases "label = []") (simp_all add: format_divider_def rendered_def)
  have centered: "format_center memory CHR ''='' rendered width
      = Inr (replicate (missing div 2) CHR ''='' @ rendered
             @ replicate (missing - missing div 2) CHR ''='')"
    using assms(1,2) total by (simp add: format_center_def Let_def diff missing_def)
  have len: "length (replicate (missing div 2) CHR ''='' @ rendered
             @ replicate (missing - missing div 2) CHR ''='')
      = max (nat width) (length rendered)"
    by (simp add: missing_def max_def)
  have balance: "missing div 2 \<le> missing - missing div 2"
    "missing - missing div 2 \<le> missing div 2 + 1"
    by arith+
  show ?thesis
    unfolding Let_def rendered_def [symmetric] missing_def [symmetric]
    using call [unfolded centered] len balance by blast
qed

theorem format_divider_centered_witness:
  "(0::int) \<le> 80 \<and> 80 \<le> PY_SSIZE_T_MAX \<and> allocates (Some 80) 80
   \<and> format_divider (Some 80) ''Result'' 80
       = Inr (replicate 35 CHR ''='' @ ''| Result |'' @ replicate 35 CHR ''='')
   \<and> length (replicate 35 CHR ''='' @ ''| Result |'' @ replicate 35 CHR ''='') = 80"
  using format_divider_centered [of 80 "Some 80" "''Result''"]
  by (simp add: Let_def PY_SSIZE_T_MAX_def allocates_def)

text \<open>
  C9. For every operation that returns, execute_verbosely_async prints the divider
  "Start Execution of" with the \<open>repr\<close> of the label before it awaits the operation, and
  afterwards the divider "Result", the result (the placeholder "(no result)" when the
  result is None), and the divider "End" followed by three newlines; it returns the
  result of the operation unchanged.
\<close>

theorem execute_verbosely_async_prints:
  assumes "coroutine (w\<lparr>console := console w
              @ divider80 (''Start Execution of '' @ py_repr_str label) @ newline\<rparr>)
            = (Inr result, w')"
  shows "execute_verbosely_async coroutine label w =
           (Inr result,
            w'\<lparr>console := console w' @ divider80 ''Result'' @ newline
                 @ (if result = VNone then ''(no result)'' else py_str result) @ newline
                 @ divider80 ''End'' @ newline @ newline @ newline\<rparr>)"
  using assms
  by (simp add: execute_verbosely_async_def bind_io_def print_divider_run py_print_def ret_io_def)

theorem execute_verbosely_async_prints_witness:
  "execute_verbosely_async (ret_io (VStr ''Hello, world!'')) ''simple'' world0 =
     (Inr (VStr ''Hello, world!''),
      world0\<lparr>console := divider80 (''Start Execution of '' @ py_repr_str ''simple'') @ newline
                 @ divider80 ''Result'' @ newline @ ''Hello, world!'' @ newline
                 @ divider80 ''End'' @ newline @ newline @ newline\<rparr>)
   \<and> fst (execute_verbosely_async (ret_io VNone) ''flush_db'' world0) = Inr VNone"
  using execute_verbosely_async_prints
    [of "ret_io (VStr ''Hello, world!'')" world0 "''simple''" "VStr ''Hello, world!''"]
    execute_verbosely_async_prints [of "ret_io VNone" world0 "''flush_db''" VNone]
  by (simp add: ret_io_def world0_sel)

text \<open>
  C10. simple_statement called with the message "Hello, world!" returns exactly the
  string "Hello, world!", in every world, and never raises: the statement selects its
  one parameter, and the scalar of the result is the message.
\<close>

theorem simple_statement_hello_world:
  "simple_statement ''Hello, world!'' async_engine w
     = (Inr (VStr ''Hello, world!''), w\<lparr>trace := trace w @ [ConnOpen, ConnExecute, ConnClose]\<rparr>)"
  by (simp add: simple_statement_def io_defs conn_execute_def scalar_def)

theorem simple_statement_hello_world_witness:
  "fst (simple_statement ''Hello, world!'' engine0 world0) = Inr (VStr ''Hello, world!'')"
  using simple_statement_hello_world [of engine0 world0]
  by simp

end
